theory Spec2Isabelle
  imports Complex_Main "HOL-Library.Multiset"
begin

section \<open>Variable indices of anemoi-models: data model\<close>

text \<open>
  The development embeds \<^verbatim>\<open>anemoi/models/data_indices/tensor.py\<close> and
  \<^verbatim>\<open>anemoi/models/data_indices/index.py\<close>.

  \<^item> A Python \<^verbatim>\<open>dict[str, int]\<close> is an association list in insertion order; a
    dictionary has every key once, which is the predicate \<open>wf_dict\<close>.
  \<^item> A one-dimensional integer tensor is the list of its elements. The source builds it
    with \<^verbatim>\<open>torch.Tensor(...).to(torch.int)\<close>: every position is first rounded to a
    32-bit float and then converted to a 32-bit integer (\<open>to_int_tensor\<close>).
  \<^item> A failed \<^verbatim>\<open>assert\<close> and a size mismatch reported by torch are values of the
    type \<open>error\<close>; a function that can raise returns \<open>error + 'a\<close>.
  \<^item> Private attributes \<^verbatim>\<open>_x\<close> of the source are written without the leading
    underscore, prefixed by \<open>di_\<close> (DataIndex) or \<open>mi_\<close> (ModelIndex) where two
    classes use the same attribute name.
\<close>

type_synonym name_to_index_dict = "(string \<times> int) list"

type_synonym tensor = "int list"

datatype error =
    AssertionError "string list"  \<comment> \<open>the names printed by the assertion message\<close>
  | RuntimeError                  \<comment> \<open>torch: tensor sizes cannot be broadcast\<close>

definition dict_keys :: "('k \<times> 'v) list \<Rightarrow> 'k list" where
  "dict_keys d = map fst d"

definition wf_dict :: "('k \<times> 'v) list \<Rightarrow> bool" where
  "wf_dict d = distinct (dict_keys d)"

text \<open>The mapping sends distinct names to distinct positions.\<close>

definition injective_dict :: "('k \<times> 'v) list \<Rightarrow> bool" where
  "injective_dict d = (\<forall>(k, i) \<in> set d. \<forall>(k', i') \<in> set d. i = i' \<longrightarrow> k = k')"

text \<open>\<^verbatim>\<open>d[k]\<close> for a key that is present.\<close>

definition position_of :: "name_to_index_dict \<Rightarrow> string \<Rightarrow> int" where
  "position_of d k = (case map_of d k of Some i \<Rightarrow> i | None \<Rightarrow> 0)"

record BaseTensorIndex =
  name_to_index :: name_to_index_dict
  "includes" :: "string list"
  prognostic :: tensor
  diagnostic :: tensor
  forcing :: tensor
  targets :: tensor
  full :: tensor

record InputTensorIndex = BaseTensorIndex +
  known_future_variables :: "string list"
  additional_model_variables :: "string list"

type_synonym OutputTensorIndex = BaseTensorIndex

section \<open>tensor.py\<close>

text \<open>
  \<^verbatim>\<open>torch.Tensor(xs)\<close> stores Python integers as 32-bit floats: 24 significant bits,
  rounded to nearest, ties to even. \<open>float32 i\<close> is the value of that float, an integer
  again: below \<open>2 ^ 24\<close> in magnitude nothing is lost, above it the lowest
  \<open>bit_length - 24\<close> bits are rounded away.
\<close>

fun bit_length :: "nat \<Rightarrow> nat" where
  "bit_length n = (if n = 0 then 0 else bit_length (n div 2) + 1)"

declare bit_length.simps [simp del]

definition float32 :: "int \<Rightarrow> int" where
  "float32 i =
     (if \<bar>i\<bar> < 2 ^ 24 then i
      else
        let n = nat \<bar>i\<bar>;
            s = bit_length n - 24;
            q = n div 2 ^ s;
            r = n mod 2 ^ s;
            q' = (if 2 ^ s < 2 * r \<or> (2 * r = 2 ^ s \<and> odd q) then q + 1 else q)
        in sgn i * int (q' * 2 ^ s))"

text \<open>
  \<^verbatim>\<open>.to(torch.int)\<close> converts to 32-bit integers. A value outside their range has no
  defined conversion in C; the x86 instruction yields \<open>- 2 ^ 31\<close> for it, which is what
  the model returns.
\<close>

definition to_int32 :: "int \<Rightarrow> int" where
  "to_int32 v = (if - (2 ^ 31) \<le> v \<and> v < 2 ^ 31 then v else - (2 ^ 31))"

definition to_int_tensor :: "int list \<Rightarrow> tensor" where
  "to_int_tensor xs = map (\<lambda>i. to_int32 (float32 i)) xs"

text \<open>
  \<^verbatim>\<open>torch.Tensor(sorted(i for name, i in self.name_to_index.items()
      if name in var_list)).to(torch.int)\<close>:
  one position for every entry of the mapping whose name occurs in the list, sorted
  ascending and then converted.
\<close>

definition build_idx_from_list :: "name_to_index_dict \<Rightarrow> string list \<Rightarrow> tensor" where
  "build_idx_from_list n2i var_list =
     to_int_tensor (sort [i. (name, i) \<leftarrow> n2i, name \<in> set var_list])"

text \<open>
  The constructor checks \<open>includes\<close> with an \<^verbatim>\<open>assert\<close> statement (Python run
  without \<^verbatim>\<open>-O\<close>); the error carries the list that the assertion message prints.
\<close>

definition BaseTensorIndex_init ::
  "string list \<Rightarrow> string list \<Rightarrow> string list \<Rightarrow> string list \<Rightarrow> string list
     \<Rightarrow> name_to_index_dict \<Rightarrow> error + BaseTensorIndex" where
  "BaseTensorIndex_init prognostic_vars diagnostic_vars forcing_vars targets_vars
       includes_vars n2i =
     (if set includes_vars \<subseteq> set (dict_keys n2i) then
        Inr \<lparr> name_to_index = n2i,
              includes = includes_vars,
              prognostic = build_idx_from_list n2i prognostic_vars,
              diagnostic = build_idx_from_list n2i diagnostic_vars,
              forcing = build_idx_from_list n2i forcing_vars,
              targets = build_idx_from_list n2i targets_vars,
              full = build_idx_from_list n2i includes_vars \<rparr>
      else
        Inl (AssertionError [var \<leftarrow> includes_vars. var \<notin> set (dict_keys n2i)]))"

text \<open>
  The two keyword arguments of the input variant are optional
  (\<^verbatim>\<open>kwargs.pop(name, [])\<close>): \<open>None\<close> is the absent argument.
\<close>

definition InputTensorIndex_init ::
  "string list \<Rightarrow> string list \<Rightarrow> string list \<Rightarrow> string list \<Rightarrow> string list
     \<Rightarrow> name_to_index_dict \<Rightarrow> string list option \<Rightarrow> string list option
     \<Rightarrow> error + InputTensorIndex" where
  "InputTensorIndex_init prognostic_vars diagnostic_vars forcing_vars targets_vars
       includes_vars n2i known_future additional =
     (case BaseTensorIndex_init prognostic_vars diagnostic_vars forcing_vars targets_vars
             includes_vars n2i of
        Inl e \<Rightarrow> Inl e
      | Inr b \<Rightarrow>
          Inr (BaseTensorIndex.extend b
                 (InputTensorIndex.fields
                    (case known_future of None \<Rightarrow> [] | Some l \<Rightarrow> l)
                    (case additional of None \<Rightarrow> [] | Some l \<Rightarrow> l))))"

definition OutputTensorIndex_init ::
  "string list \<Rightarrow> string list \<Rightarrow> string list \<Rightarrow> string list \<Rightarrow> string list
     \<Rightarrow> name_to_index_dict \<Rightarrow> error + OutputTensorIndex" where
  "OutputTensorIndex_init prognostic_vars diagnostic_vars forcing_vars targets_vars
       includes_vars n2i =
     BaseTensorIndex_init prognostic_vars diagnostic_vars forcing_vars targets_vars
       includes_vars n2i"

definition BaseTensorIndex_len :: "'a BaseTensorIndex_scheme \<Rightarrow> nat" where
  "BaseTensorIndex_len self = length (full self)"

definition InputTensorIndex_len :: "InputTensorIndex \<Rightarrow> nat" where
  "InputTensorIndex_len self =
     length (prognostic self) + length (forcing self)
       + 2 * length (known_future_variables self)
       + length (additional_model_variables self)"

definition OutputTensorIndex_len :: "OutputTensorIndex \<Rightarrow> nat" where
  "OutputTensorIndex_len self = length (full self)"

definition BaseTensorIndex_todict :: "'a BaseTensorIndex_scheme \<Rightarrow> (string \<times> tensor) list" where
  "BaseTensorIndex_todict self =
     [(''prognostic'', prognostic self),
      (''diagnostic'', diagnostic self),
      (''forcing'', forcing self),
      (''targets'', targets self),
      (''full'', full self)]"

subsection \<open>Equality\<close>

text \<open>
  \<^verbatim>\<open>torch.allclose(input, other)\<close> with its default tolerances holds when
  \<open>\<bar>input\<^sub>i - other\<^sub>i\<bar> \<le> atol + rtol * \<bar>other\<^sub>i\<bar>\<close> for every element, after
  broadcasting: two one-dimensional tensors are compatible when their sizes are equal or
  one of them has size one, and torch raises otherwise. The tolerance is computed here in
  exact rational arithmetic.
\<close>

definition rtol :: rat where
  "rtol = 1 / 100000"

definition atol :: rat where
  "atol = 1 / 100000000"

definition isclose :: "int \<Rightarrow> int \<Rightarrow> bool" where
  "isclose a b = (\<bar>of_int a - of_int b\<bar> \<le> atol + rtol * \<bar>of_int b\<bar>)"

definition allclose :: "tensor \<Rightarrow> tensor \<Rightarrow> error + bool" where
  "allclose a b =
     (if length a = length b then Inr (list_all2 isclose a b)
      else if length a = 1 then Inr (list_all (\<lambda>y. isclose (hd a) y) b)
      else if length b = 1 then Inr (list_all (\<lambda>x. isclose x (hd b)) a)
      else Inl RuntimeError)"

text \<open>Python's short-circuit \<^verbatim>\<open>and\<close> over results that may raise.\<close>

definition py_and :: "error + bool \<Rightarrow> error + bool \<Rightarrow> error + bool" where
  "py_and x y = (case x of Inl e \<Rightarrow> Inl e | Inr b \<Rightarrow> if b then y else Inr False)"

text \<open>
  The right operand of \<^verbatim>\<open>__eq__\<close> is any Python object: an instance of the class
  the method tests for, or an object of an unrelated type.
\<close>

datatype 'a py_object = Instance 'a | Unrelated

datatype eq_result = NotImplemented | Bool bool

definition BaseTensorIndex_eq ::
  "'a BaseTensorIndex_scheme \<Rightarrow> 'b BaseTensorIndex_scheme py_object \<Rightarrow> error + eq_result" where
  "BaseTensorIndex_eq self other =
     (case other of
        Unrelated \<Rightarrow> Inr NotImplemented
      | Instance other \<Rightarrow>
          map_sum id Bool
            (py_and (allclose (prognostic self) (prognostic other))
            (py_and (allclose (diagnostic self) (diagnostic other))
            (py_and (allclose (forcing self) (forcing other))
            (py_and (allclose (targets self) (targets other))
                    (allclose (full self) (full other)))))))"

section \<open>index.py\<close>

record BaseIndex =
  input :: InputTensorIndex
  "output" :: OutputTensorIndex

record DataIndex = BaseIndex +
  di_diagnostic :: "string list"
  di_forcing :: "string list"
  di_targets :: "string list"
  di_prognostic :: "string list"
  di_name_to_index :: name_to_index_dict

record ModelIndex = BaseIndex +
  mi_diagnostic :: "string list"
  mi_forcing :: "string list"
  mi_targets :: "string list"
  mi_prognostic :: "string list"
  mi_known_future_variables :: "string list"
  mi_additional_model_variables :: "string list"
  mi_name_to_index_model_input :: name_to_index_dict
  mi_name_to_index_model_output :: name_to_index_dict

text \<open>
  The input index is built first; when its assertion fails the output index is never built.
\<close>

definition DataIndex_init ::
  "string list \<Rightarrow> string list \<Rightarrow> string list \<Rightarrow> name_to_index_dict \<Rightarrow> error + DataIndex" where
  "DataIndex_init diagnostic_vars forcing_vars targets_vars n2i =
     (let prognostic_vars =
            [v \<leftarrow> dict_keys n2i. v \<notin> set (forcing_vars @ diagnostic_vars @ targets_vars)]
      in case InputTensorIndex_init prognostic_vars diagnostic_vars forcing_vars targets_vars
                (forcing_vars @ prognostic_vars) n2i None None of
           Inl e \<Rightarrow> Inl e
         | Inr inp \<Rightarrow>
             (case OutputTensorIndex_init prognostic_vars diagnostic_vars forcing_vars
                     targets_vars (diagnostic_vars @ targets_vars) n2i of
                Inl e \<Rightarrow> Inl e
              | Inr out \<Rightarrow>
                  Inr \<lparr> input = inp, output = out,
                        di_diagnostic = diagnostic_vars,
                        di_forcing = forcing_vars,
                        di_targets = targets_vars,
                        di_prognostic = prognostic_vars,
                        di_name_to_index = n2i \<rparr>))"

definition ModelIndex_init ::
  "string list \<Rightarrow> string list \<Rightarrow> string list \<Rightarrow> name_to_index_dict \<Rightarrow> name_to_index_dict
     \<Rightarrow> string list \<Rightarrow> string list \<Rightarrow> error + ModelIndex" where
  "ModelIndex_init diagnostic_vars forcing_vars targets_vars n2i_model_input
       n2i_model_output known_future additional =
     (let prognostic_vars =
            [v \<leftarrow> dict_keys n2i_model_input.
               v \<notin> set (forcing_vars @ diagnostic_vars @ targets_vars)]
      in case InputTensorIndex_init prognostic_vars diagnostic_vars forcing_vars targets_vars
                (forcing_vars @ prognostic_vars) n2i_model_input
                (Some known_future) (Some additional) of
           Inl e \<Rightarrow> Inl e
         | Inr inp \<Rightarrow>
             (case OutputTensorIndex_init prognostic_vars diagnostic_vars forcing_vars
                     targets_vars (diagnostic_vars @ targets_vars) n2i_model_output of
                Inl e \<Rightarrow> Inl e
              | Inr out \<Rightarrow>
                  Inr \<lparr> input = inp, output = out,
                        mi_diagnostic = diagnostic_vars,
                        mi_forcing = forcing_vars,
                        mi_targets = targets_vars,
                        mi_prognostic = prognostic_vars,
                        mi_known_future_variables = known_future,
                        mi_additional_model_variables = additional,
                        mi_name_to_index_model_input = n2i_model_input,
                        mi_name_to_index_model_output = n2i_model_output \<rparr>))"

text \<open>
  \<^verbatim>\<open>self.input == other.input\<close> dispatches to \<open>BaseTensorIndex_eq\<close>; both operands
  are tensor indices there, so the comparison yields a truth value or raises.
\<close>

definition tensor_index_equal ::
  "'a BaseTensorIndex_scheme \<Rightarrow> 'b BaseTensorIndex_scheme \<Rightarrow> error + bool" where
  "tensor_index_equal a b =
     (case BaseTensorIndex_eq a (Instance b) of
        Inl e \<Rightarrow> Inl e
      | Inr NotImplemented \<Rightarrow> Inr False
      | Inr (Bool r) \<Rightarrow> Inr r)"

definition BaseIndex_eq ::
  "'a BaseIndex_scheme \<Rightarrow> 'b BaseIndex_scheme py_object \<Rightarrow> error + eq_result" where
  "BaseIndex_eq self other =
     (case other of
        Unrelated \<Rightarrow> Inr NotImplemented
      | Instance other \<Rightarrow>
          map_sum id Bool
            (py_and (tensor_index_equal (input self) (input other))
                    (tensor_index_equal (output self) (output other))))"

definition BaseIndex_todict ::
  "'a BaseIndex_scheme \<Rightarrow> (string \<times> (string \<times> tensor) list) list" where
  "BaseIndex_todict self =
     [(''input'', BaseTensorIndex_todict (input self)),
      (''output'', BaseTensorIndex_todict (output self))]"

section \<open>Properties of the index arrays\<close>

subsection \<open>The tensor conversion\<close>

lemma float32_small: "\<bar>i\<bar> < 2 ^ 24 \<Longrightarrow> float32 i = i"
  by (simp add: float32_def)

lemma bit_length_16777216: "bit_length 16777216 = 25"
  by (simp add: bit_length.simps)

lemma bit_length_16777217: "bit_length 16777217 = 25"
  by (simp add: bit_length.simps)

lemma float32_16777216: "float32 16777216 = 16777216"
  by (simp add: float32_def Let_def bit_length_16777216)

lemma float32_minus_16777216: "float32 (- 16777216) = - 16777216"
  by (simp add: float32_def Let_def bit_length_16777216)

lemma float32_16777217: "float32 16777217 = 16777216"
  by (simp add: float32_def Let_def bit_length_16777217)

lemma bit_length_2147483647: "bit_length 2147483647 = 31"
  by (simp add: bit_length.simps)

lemma float32_2147483647: "float32 2147483647 = 2147483648"
  by (simp add: float32_def Let_def bit_length_2147483647)

text \<open>
  The largest 32-bit integer rounds up to \<open>2 ^ 31\<close> as a float and leaves the integer
  range: the stored array is no longer sorted.
\<close>

lemma build_idx_out_of_range:
  "build_idx_from_list [(''a'', 0), (''b'', 2147483647)] [''a'', ''b''] = [0, - 2147483648]"
  by (simp add: build_idx_from_list_def to_int_tensor_def float32_small float32_2147483647
      to_int32_def)

lemma to_int32_in_range: "- (2 ^ 31) \<le> v \<Longrightarrow> v < 2 ^ 31 \<Longrightarrow> to_int32 v = v"
  by (simp add: to_int32_def)

lemma conversion_exact:
  assumes "\<bar>i\<bar> \<le> 2 ^ 24"
  shows "to_int32 (float32 i) = i"
proof -
  consider "\<bar>i\<bar> < 2 ^ 24" | "i = 16777216" | "i = - 16777216"
    using assms by fastforce
  then show ?thesis
  proof cases
    case 1
    then have "- (2 ^ 31) \<le> i" and "i < 2 ^ 31"
      by simp_all
    then show ?thesis
      using 1 by (simp only: float32_small to_int32_in_range)
  next
    case 2
    then show ?thesis by (simp add: float32_16777216 to_int32_def)
  next
    case 3
    then show ?thesis by (simp add: float32_minus_16777216 to_int32_def)
  qed
qed

lemma to_int_tensor_exact:
  assumes "\<forall>i \<in> set xs. to_int32 (float32 i) = i"
  shows "to_int_tensor xs = xs"
  using assms by (simp add: to_int_tensor_def map_idI)

lemma to_int_tensor_small:
  assumes "\<forall>i \<in> set xs. \<bar>i\<bar> \<le> 2 ^ 24"
  shows "to_int_tensor xs = xs"
  using assms by (intro to_int_tensor_exact) (simp add: conversion_exact)

lemma length_to_int_tensor: "length (to_int_tensor xs) = length xs"
  by (simp add: to_int_tensor_def)

subsection \<open>Positions selected by a list of names\<close>

lemma positions_comprehension:
  "[i. (name, i) \<leftarrow> d, name \<in> S] = map snd (filter (\<lambda>p. fst p \<in> S) d)"
  by (induction d) auto

lemma build_idx_alt:
  "build_idx_from_list d l
     = to_int_tensor (sort (map snd (filter (\<lambda>p. fst p \<in> set l) d)))"
  by (simp add: build_idx_from_list_def positions_comprehension)

lemma build_idx_length:
  "length (build_idx_from_list d l) = length (filter (\<lambda>p. fst p \<in> set l) d)"
  by (simp add: build_idx_alt length_to_int_tensor)

lemma build_idx_cong_set:
  "set l = set l' \<Longrightarrow> build_idx_from_list d l = build_idx_from_list d l'"
  by (simp add: build_idx_alt)

lemma injective_dict_values:
  assumes "wf_dict d" "injective_dict d"
  shows "distinct (map snd d)"
proof -
  have "distinct d"
    using assms(1) by (simp add: wf_dict_def dict_keys_def distinct_map)
  moreover have "inj_on snd (set d)"
    using assms(2) unfolding inj_on_def injective_dict_def by fastforce
  ultimately show ?thesis by (simp add: distinct_map)
qed

lemma position_of_entry:
  "wf_dict d \<Longrightarrow> (k, i) \<in> set d \<Longrightarrow> position_of d k = i"
  by (simp add: wf_dict_def dict_keys_def position_of_def)

lemma positions_by_lookup:
  assumes "wf_dict d"
  shows "map snd (filter (\<lambda>p. fst p \<in> S) d)
           = map (position_of d) (filter (\<lambda>k. k \<in> S) (dict_keys d))"
proof -
  have "map snd (filter (\<lambda>p. fst p \<in> S) d)
      = map (\<lambda>p. position_of d (fst p)) (filter (\<lambda>p. fst p \<in> S) d)"
    using assms by (intro map_cong refl) (auto simp: position_of_entry)
  also have "\<dots> = map (position_of d) (filter (\<lambda>k. k \<in> S) (dict_keys d))"
    by (simp add: dict_keys_def filter_map comp_def)
  finally show ?thesis .
qed

lemma keys_in_list_mset:
  assumes "wf_dict d"
  shows "mset (filter (\<lambda>k. k \<in> set l) (dict_keys d))
           = mset (remdups (filter (\<lambda>n. n \<in> set (dict_keys d)) l))"
proof -
  have "distinct (filter (\<lambda>k. k \<in> set l) (dict_keys d))"
    using assms by (simp add: wf_dict_def)
  moreover have "distinct (remdups (filter (\<lambda>n. n \<in> set (dict_keys d)) l))" by simp
  moreover have "set (filter (\<lambda>k. k \<in> set l) (dict_keys d))
      = set (remdups (filter (\<lambda>n. n \<in> set (dict_keys d)) l))"
    by auto
  ultimately show ?thesis by (simp only: set_eq_iff_mset_eq_distinct)
qed

lemma sorted_positions_by_lookup:
  assumes "wf_dict d"
  shows "sort (map snd (filter (\<lambda>p. fst p \<in> set l) d))
           = sort (map (position_of d) (remdups (filter (\<lambda>n. n \<in> set (dict_keys d)) l)))"
proof -
  have "mset (map (position_of d) (filter (\<lambda>k. k \<in> set l) (dict_keys d)))
      = mset (map (position_of d) (remdups (filter (\<lambda>n. n \<in> set (dict_keys d)) l)))"
    using keys_in_list_mset [OF assms, of l] by (metis mset_map)
  then have "mset (map snd (filter (\<lambda>p. fst p \<in> set l) d))
      = mset (map (position_of d) (remdups (filter (\<lambda>n. n \<in> set (dict_keys d)) l)))"
    by (simp only: positions_by_lookup [OF assms])
  then show ?thesis
    by (intro properties_for_sort) simp_all
qed

lemma sorted_positions_set:
  assumes "wf_dict d"
  shows "set (sort (map snd (filter (\<lambda>p. fst p \<in> set l) d)))
           = position_of d ` (set l \<inter> set (dict_keys d))"
  unfolding sorted_positions_by_lookup [OF assms] by auto

lemma sorted_positions_strict:
  assumes "wf_dict d" and "injective_dict d"
  shows "sorted_wrt (<) (sort (map snd (filter (\<lambda>p. fst p \<in> set l) d)))"
  by (simp add: strict_sorted_iff injective_dict_values [OF assms] distinct_map_filter)

lemma build_idx_by_lookup:
  assumes "wf_dict d"
  shows "build_idx_from_list d l
           = to_int_tensor (sort (map (position_of d)
               (remdups (filter (\<lambda>n. n \<in> set (dict_keys d)) l))))"
  unfolding build_idx_alt sorted_positions_by_lookup [OF assms] ..

lemma build_idx_exact:
  assumes "wf_dict d"
    and "\<forall>n \<in> set l \<inter> set (dict_keys d).
           to_int32 (float32 (position_of d n)) = position_of d n"
  shows "build_idx_from_list d l = sort (map snd (filter (\<lambda>p. fst p \<in> set l) d))"
proof -
  have "\<forall>i \<in> set (sort (map snd (filter (\<lambda>p. fst p \<in> set l) d))).
      to_int32 (float32 i) = i"
    unfolding sorted_positions_set [OF assms(1)] using assms(2) by blast
  then show ?thesis
    unfolding build_idx_alt by (rule to_int_tensor_exact)
qed

lemma build_idx_sorted_list_of_set:
  assumes "wf_dict d" and "injective_dict d"
    and "\<forall>n \<in> set l \<inter> set (dict_keys d).
           to_int32 (float32 (position_of d n)) = position_of d n"
  shows "build_idx_from_list d l
           = sorted_list_of_set (position_of d ` (set l \<inter> set (dict_keys d)))"
proof -
  let ?xs = "sort (map snd (filter (\<lambda>p. fst p \<in> set l) d))"
  have "sorted ?xs" and "distinct ?xs"
    using sorted_positions_strict [OF assms(1,2), of l]
    by (simp_all only: strict_sorted_iff)
  then have "sorted_list_of_set (set ?xs) = ?xs"
    by (rule sorted_list_of_set.idem_if_sorted_distinct)
  then show ?thesis
    by (simp only: build_idx_exact [OF assms(1,3)] sorted_positions_set [OF assms(1)])
qed

lemma strict_sorted_map:
  assumes "sorted_wrt (<) xs"
    and "\<forall>x \<in> set xs. \<forall>y \<in> set xs. x < y \<longrightarrow> g x < g y"
  shows "sorted_wrt (<) (map g xs)"
  unfolding sorted_wrt_map
  using assms(1)
proof (rule sorted_wrt_mono_rel [rotated])
  fix x y assume "x \<in> set xs" "y \<in> set xs" "x < y"
  then show "g x < g y"
    using assms(2) by blast
qed

lemma build_idx_strict:
  assumes "wf_dict d" and "injective_dict d"
    and "\<forall>n \<in> set l \<inter> set (dict_keys d). \<forall>n' \<in> set l \<inter> set (dict_keys d).
           position_of d n < position_of d n'
           \<longrightarrow> to_int32 (float32 (position_of d n)) < to_int32 (float32 (position_of d n'))"
  shows "sorted_wrt (<) (build_idx_from_list d l)"
  unfolding build_idx_alt to_int_tensor_def
proof (rule strict_sorted_map)
  show "sorted_wrt (<) (sort (map snd (filter (\<lambda>p. fst p \<in> set l) d)))"
    by (rule sorted_positions_strict [OF assms(1,2)])
  show "\<forall>x \<in> set (sort (map snd (filter (\<lambda>p. fst p \<in> set l) d))).
      \<forall>y \<in> set (sort (map snd (filter (\<lambda>p. fst p \<in> set l) d))).
      x < y \<longrightarrow> to_int32 (float32 x) < to_int32 (float32 y)"
    unfolding sorted_positions_set [OF assms(1)] using assms(3) by blast
qed

lemma build_idx_length_append:
  assumes "set a \<inter> set b = {}"
  shows "length (build_idx_from_list d (a @ b))
           = length (build_idx_from_list d a) + length (build_idx_from_list d b)"
proof -
  have "length (filter (\<lambda>p. fst p \<in> set a \<or> fst p \<in> set b) d)
      = length (filter (\<lambda>p. fst p \<in> set a) d) + length (filter (\<lambda>p. fst p \<in> set b) d)"
    using assms by (induction d) auto
  then show ?thesis by (simp add: build_idx_length)
qed

lemma build_idx_length_subset:
  assumes "set c \<subseteq> set a \<union> set b"
  shows "length (build_idx_from_list d c)
           \<le> length (build_idx_from_list d a) + length (build_idx_from_list d b)"
proof -
  have "length (filter (\<lambda>p. fst p \<in> set c) d)
      \<le> length (filter (\<lambda>p. fst p \<in> set a) d) + length (filter (\<lambda>p. fst p \<in> set b) d)"
    using assms by (induction d) auto
  then show ?thesis by (simp add: build_idx_length)
qed

lemma build_idx_drop_missing:
  "build_idx_from_list d l = build_idx_from_list d [n \<leftarrow> l. n \<in> set (dict_keys d)]"
proof -
  have "filter (\<lambda>p. fst p \<in> set l) d
      = filter (\<lambda>p. fst p \<in> set [n \<leftarrow> l. n \<in> set (dict_keys d)]) d"
    by (intro filter_cong refl) (auto simp: dict_keys_def)
  then show ?thesis by (simp only: build_idx_alt)
qed

subsection \<open>Construction\<close>

lemma BaseTensorIndex_init_ok:
  assumes "set inc \<subseteq> set (dict_keys n2i)"
  shows "BaseTensorIndex_init p d f t inc n2i =
    Inr \<lparr> name_to_index = n2i, includes = inc,
          prognostic = build_idx_from_list n2i p,
          diagnostic = build_idx_from_list n2i d,
          forcing = build_idx_from_list n2i f,
          targets = build_idx_from_list n2i t,
          full = build_idx_from_list n2i inc \<rparr>"
  using assms by (simp add: BaseTensorIndex_init_def)

lemma BaseTensorIndex_init_fail:
  assumes "\<not> set inc \<subseteq> set (dict_keys n2i)"
  shows "BaseTensorIndex_init p d f t inc n2i =
    Inl (AssertionError [var \<leftarrow> inc. var \<notin> set (dict_keys n2i)])"
  using assms by (simp add: BaseTensorIndex_init_def)

lemma BaseTensorIndex_init_InrD:
  assumes "BaseTensorIndex_init p d f t inc n2i = Inr ti"
  shows "set inc \<subseteq> set (dict_keys n2i)"
    and "name_to_index ti = n2i" and "includes ti = inc"
    and "prognostic ti = build_idx_from_list n2i p"
    and "diagnostic ti = build_idx_from_list n2i d"
    and "forcing ti = build_idx_from_list n2i f"
    and "targets ti = build_idx_from_list n2i t"
    and "full ti = build_idx_from_list n2i inc"
  using assms by (auto simp: BaseTensorIndex_init_def split: if_splits)

lemma InputTensorIndex_init_InrD:
  assumes "InputTensorIndex_init p d f t inc n2i kf add = Inr ti"
  shows "set inc \<subseteq> set (dict_keys n2i)"
    and "name_to_index ti = n2i" and "includes ti = inc"
    and "prognostic ti = build_idx_from_list n2i p"
    and "diagnostic ti = build_idx_from_list n2i d"
    and "forcing ti = build_idx_from_list n2i f"
    and "targets ti = build_idx_from_list n2i t"
    and "full ti = build_idx_from_list n2i inc"
    and "known_future_variables ti = (case kf of None \<Rightarrow> [] | Some l \<Rightarrow> l)"
    and "additional_model_variables ti = (case add of None \<Rightarrow> [] | Some l \<Rightarrow> l)"
  using assms
  by (auto simp: InputTensorIndex_init_def BaseTensorIndex_init_def
      BaseTensorIndex.extend_def InputTensorIndex.fields_def split: if_splits)

lemma InputTensorIndex_init_ok:
  assumes "set inc \<subseteq> set (dict_keys n2i)"
  shows "\<exists>ti. InputTensorIndex_init p d f t inc n2i kf add = Inr ti"
  using assms by (simp add: InputTensorIndex_init_def BaseTensorIndex_init_def)

lemma InputTensorIndex_init_fail:
  assumes "\<not> set inc \<subseteq> set (dict_keys n2i)"
  shows "InputTensorIndex_init p d f t inc n2i kf add =
    Inl (AssertionError [var \<leftarrow> inc. var \<notin> set (dict_keys n2i)])"
  using assms by (simp add: InputTensorIndex_init_def BaseTensorIndex_init_def)

section \<open>Claims\<close>

text \<open>
  C1 as stated does not hold: the positions pass through a 32-bit float before they are
  stored. With the positions \<open>16777216\<close> and \<open>16777217\<close> of two included names the
  array \<open>full\<close> holds \<open>16777216\<close> twice; it is not the sort of the two positions and
  it has a duplicate, although the mapping is injective and \<open>includes\<close> has no duplicate.
\<close>

theorem C1_rounded_positions_counterexample:
  "BaseTensorIndex_init [] [] [] [] [''a'', ''b''] [(''a'', 16777216), (''b'', 16777217)]
     = Inr \<lparr> name_to_index = [(''a'', 16777216), (''b'', 16777217)],
             includes = [''a'', ''b''], prognostic = [], diagnostic = [], forcing = [],
             targets = [], full = [16777216, 16777216] \<rparr>
   \<and> sort (map (position_of [(''a'', 16777216), (''b'', 16777217)]) [''a'', ''b''])
       = [16777216, 16777217]
   \<and> \<not> distinct [16777216, 16777216 :: int]
   \<and> wf_dict [(''a'', 16777216 :: int), (''b'', 16777217)]
   \<and> injective_dict [(''a'', 16777216 :: int), (''b'', 16777217)]"
  by (simp add: BaseTensorIndex_init_def build_idx_from_list_def dict_keys_def
      to_int_tensor_def float32_16777216 float32_16777217 to_int32_def position_of_def
      wf_dict_def injective_dict_def)

text \<open>
  C1 (amended). For every tensor index constructed with an \<open>includes\<close> list whose names
  are all keys of the mapping and whose positions the conversion to the 32-bit integer
  tensor leaves unchanged (every position of magnitude at most \<open>2 ^ 24\<close> is such),
  \<open>full\<close> is the ascending sort of the positions of the names of \<open>includes\<close> that are
  mapping keys; when moreover \<open>includes\<close> has no duplicate name and the mapping is
  injective, \<open>full\<close> is strictly ascending and free of duplicates.
\<close>

theorem C1_full_sorted_positions:
  assumes "wf_dict n2i" and "set inc \<subseteq> set (dict_keys n2i)"
  shows "((\<forall>n \<in> set inc. \<bar>position_of n2i n\<bar> \<le> 2 ^ 24) \<longrightarrow>
            (\<forall>n \<in> set inc. to_int32 (float32 (position_of n2i n)) = position_of n2i n))
       \<and> ((\<forall>n \<in> set inc. to_int32 (float32 (position_of n2i n)) = position_of n2i n) \<longrightarrow>
            (\<exists>ti. BaseTensorIndex_init p d f t inc n2i = Inr ti
               \<and> full ti = sort (map (position_of n2i)
                                   (remdups [n \<leftarrow> inc. n \<in> set (dict_keys n2i)]))
               \<and> (distinct inc \<and> injective_dict n2i
                    \<longrightarrow> sorted_wrt (<) (full ti) \<and> distinct (full ti)
                        \<and> full ti = sort (map (position_of n2i) inc))))"
proof (intro conjI impI)
  assume "\<forall>n \<in> set inc. \<bar>position_of n2i n\<bar> \<le> 2 ^ 24"
  then show "\<forall>n \<in> set inc. to_int32 (float32 (position_of n2i n)) = position_of n2i n"
    by (simp add: conversion_exact)
next
  assume exact: "\<forall>n \<in> set inc. to_int32 (float32 (position_of n2i n)) = position_of n2i n"
  let ?ti = "\<lparr> name_to_index = n2i, includes = inc,
          prognostic = build_idx_from_list n2i p,
          diagnostic = build_idx_from_list n2i d,
          forcing = build_idx_from_list n2i f,
          targets = build_idx_from_list n2i t,
          full = build_idx_from_list n2i inc \<rparr>"
  have built: "BaseTensorIndex_init p d f t inc n2i = Inr ?ti"
    by (rule BaseTensorIndex_init_ok [OF assms(2)])
  have exact': "\<forall>n \<in> set inc \<inter> set (dict_keys n2i).
      to_int32 (float32 (position_of n2i n)) = position_of n2i n"
    using exact by blast
  have plain: "build_idx_from_list n2i inc
      = sort (map snd (filter (\<lambda>p. fst p \<in> set inc) n2i))"
    by (rule build_idx_exact [OF assms(1) exact'])
  have lookup: "full ?ti = sort (map (position_of n2i)
      (remdups [n \<leftarrow> inc. n \<in> set (dict_keys n2i)]))"
    by (simp add: plain sorted_positions_by_lookup [OF assms(1)])
  have all_keys: "[n \<leftarrow> inc. n \<in> set (dict_keys n2i)] = inc"
    using assms(2) by (auto intro: filter_True)
  have strict: "sorted_wrt (<) (full ?ti) \<and> distinct (full ?ti)" if "injective_dict n2i"
    using sorted_positions_strict [OF assms(1) that, of inc]
    by (simp add: plain strict_sorted_iff)
  have direct: "full ?ti = sort (map (position_of n2i) inc)" if "distinct inc"
    using that lookup all_keys by (simp add: distinct_remdups_id)
  show "\<exists>ti. BaseTensorIndex_init p d f t inc n2i = Inr ti
      \<and> full ti = sort (map (position_of n2i)
                          (remdups [n \<leftarrow> inc. n \<in> set (dict_keys n2i)]))
      \<and> (distinct inc \<and> injective_dict n2i
           \<longrightarrow> sorted_wrt (<) (full ti) \<and> distinct (full ti)
               \<and> full ti = sort (map (position_of n2i) inc))"
    using built lookup strict direct by blast
qed

theorem C1_full_sorted_positions_witness:
  "wf_dict [(''t'', 0), (''u'', 1), (''v'', 2), (''z'', 3), (''sp'', 4::int)]
   \<and> set [''sp'', ''t'', ''u'', ''v'']
        \<subseteq> set (dict_keys [(''t'', 0), (''u'', 1), (''v'', 2), (''z'', 3), (''sp'', 4::int)])
   \<and> (\<exists>ti. BaseTensorIndex_init [''t'', ''u'', ''v''] [''z''] [''sp''] []
              [''sp'', ''t'', ''u'', ''v'']
              [(''t'', 0), (''u'', 1), (''v'', 2), (''z'', 3), (''sp'', 4)] = Inr ti
          \<and> full ti = [0, 1, 2, 4])"
proof -
  let ?m = "[(''t'', 0), (''u'', 1), (''v'', 2), (''z'', 3), (''sp'', 4::int)]"
  have w: "wf_dict ?m" by (simp add: wf_dict_def dict_keys_def)
  have s: "set [''sp'', ''t'', ''u'', ''v''] \<subseteq> set (dict_keys ?m)"
    by (simp add: dict_keys_def)
  have small: "\<forall>n \<in> set [''sp'', ''t'', ''u'', ''v'']. \<bar>position_of ?m n\<bar> \<le> 2 ^ 24"
    by (simp add: position_of_def)
  note c1 = C1_full_sorted_positions [OF w s, of "[''t'', ''u'', ''v'']" "[''z'']" "[''sp'']" "[]"]
  note exact = c1 [THEN conjunct1, THEN mp, OF small]
  have "\<exists>ti. BaseTensorIndex_init [''t'', ''u'', ''v''] [''z''] [''sp''] []
              [''sp'', ''t'', ''u'', ''v''] ?m = Inr ti
          \<and> full ti = [0, 1, 2, 4]"
    using c1 [THEN conjunct2, THEN mp, OF exact]
    by (auto simp: position_of_def dict_keys_def)
  then show ?thesis
    using w s by blast
qed

text \<open>
  C3. The length of an output tensor index is the length of \<open>full\<close>; the length of an
  input tensor index is the number of prognostic positions plus the number of forcing
  positions plus twice the number of known-future variables plus the number of additional
  variables, where the two role arrays are the computed index arrays.
\<close>

theorem C3_length:
  "(OutputTensorIndex_init p d f t inc n2i = Inr out
      \<longrightarrow> OutputTensorIndex_len out = length (full out))
   \<and> (InputTensorIndex_init p d f t inc n2i kf add = Inr inp
      \<longrightarrow> InputTensorIndex_len inp
            = length (prognostic inp) + length (forcing inp)
              + 2 * length (case kf of None \<Rightarrow> [] | Some l \<Rightarrow> l)
              + length (case add of None \<Rightarrow> [] | Some l \<Rightarrow> l)
          \<and> prognostic inp = build_idx_from_list n2i p
          \<and> forcing inp = build_idx_from_list n2i f)"
proof (intro conjI impI)
  show "OutputTensorIndex_len out = length (full out)"
    by (simp add: OutputTensorIndex_len_def)
next
  assume built: "InputTensorIndex_init p d f t inc n2i kf add = Inr inp"
  note fields = InputTensorIndex_init_InrD [OF built]
  show "InputTensorIndex_len inp
      = length (prognostic inp) + length (forcing inp)
        + 2 * length (case kf of None \<Rightarrow> [] | Some l \<Rightarrow> l)
        + length (case add of None \<Rightarrow> [] | Some l \<Rightarrow> l)"
    by (simp add: InputTensorIndex_len_def fields(9,10))
  show "prognostic inp = build_idx_from_list n2i p" by (rule fields(4))
  show "forcing inp = build_idx_from_list n2i f" by (rule fields(6))
qed

theorem C3_length_witness:
  "OutputTensorIndex_init [''t'', ''u'', ''v''] [''z''] [''sp''] [] [''sp'', ''t'', ''u'', ''v'']
      [(''t'', 0), (''u'', 1), (''v'', 2), (''z'', 3), (''sp'', 4)]
    = Inr \<lparr> name_to_index = [(''t'', 0), (''u'', 1), (''v'', 2), (''z'', 3), (''sp'', 4)],
        includes = [''sp'', ''t'', ''u'', ''v''], prognostic = [0, 1, 2], diagnostic = [3],
        forcing = [4], targets = [], full = [0, 1, 2, 4] \<rparr>
   \<and> OutputTensorIndex_len
      \<lparr> name_to_index = [(''t'', 0), (''u'', 1), (''v'', 2), (''z'', 3), (''sp'', 4)],
        includes = [''sp'', ''t'', ''u'', ''v''], prognostic = [0, 1, 2], diagnostic = [3],
        forcing = [4], targets = [], full = [0, 1, 2, 4] \<rparr> = 4
   \<and> InputTensorIndex_init [''t'', ''u'', ''v''] [''z''] [''sp''] [] [''sp'', ''t'', ''u'', ''v'']
      [(''t'', 0), (''u'', 1), (''v'', 2), (''z'', 3), (''sp'', 4)] (Some [''sp'']) None
    = Inr \<lparr> name_to_index = [(''t'', 0), (''u'', 1), (''v'', 2), (''z'', 3), (''sp'', 4)],
        includes = [''sp'', ''t'', ''u'', ''v''], prognostic = [0, 1, 2], diagnostic = [3],
        forcing = [4], targets = [], full = [0, 1, 2, 4],
        known_future_variables = [''sp''], additional_model_variables = [] \<rparr>
   \<and> InputTensorIndex_len
      \<lparr> name_to_index = [(''t'', 0), (''u'', 1), (''v'', 2), (''z'', 3), (''sp'', 4)],
        includes = [''sp'', ''t'', ''u'', ''v''], prognostic = [0, 1, 2], diagnostic = [3],
        forcing = [4], targets = [], full = [0, 1, 2, 4],
        known_future_variables = [''sp''], additional_model_variables = [] \<rparr> = 6"
proof -
  let ?m = "[(''t'', 0), (''u'', 1), (''v'', 2), (''z'', 3), (''sp'', 4::int)]"
  let ?out = "\<lparr> name_to_index = ?m,
        includes = [''sp'', ''t'', ''u'', ''v''], prognostic = [0, 1, 2], diagnostic = [3],
        forcing = [4], targets = [], full = [0, 1, 2, 4] \<rparr>"
  let ?inp = "\<lparr> name_to_index = ?m,
        includes = [''sp'', ''t'', ''u'', ''v''], prognostic = [0, 1, 2], diagnostic = [3],
        forcing = [4], targets = [], full = [0, 1, 2, 4],
        known_future_variables = [''sp''], additional_model_variables = [] \<rparr>"
  have o: "OutputTensorIndex_init [''t'', ''u'', ''v''] [''z''] [''sp''] []
      [''sp'', ''t'', ''u'', ''v''] ?m = Inr ?out"
    by (simp add: OutputTensorIndex_init_def BaseTensorIndex_init_def build_idx_from_list_def to_int_tensor_def float32_def to_int32_def
        dict_keys_def)
  have i: "InputTensorIndex_init [''t'', ''u'', ''v''] [''z''] [''sp''] []
      [''sp'', ''t'', ''u'', ''v''] ?m (Some [''sp'']) None = Inr ?inp"
    by (simp add: InputTensorIndex_init_def BaseTensorIndex_init_def build_idx_from_list_def to_int_tensor_def float32_def to_int32_def
        dict_keys_def BaseTensorIndex.extend_def InputTensorIndex.fields_def)
  note c3 = C3_length [where p = "[''t'', ''u'', ''v'']" and d = "[''z'']" and f = "[''sp'']"
        and t = "[]" and inc = "[''sp'', ''t'', ''u'', ''v'']" and ?n2i = ?m and out = ?out
        and kf = "Some [''sp'']" and add = None and inp = ?inp]
  have lo: "OutputTensorIndex_len ?out = 4"
    using c3 [THEN conjunct1, THEN mp, OF o] by simp
  have li: "InputTensorIndex_len ?inp = 6"
    using c3 [THEN conjunct2, THEN mp, OF i, THEN conjunct1] by simp
  show ?thesis
    by (intro conjI o i lo li)
qed

text \<open>
  C4. Construction with an \<open>includes\<close> name that is not a key fails with an assertion
  error that lists exactly the offending names. When every name of \<open>includes\<close> is a key,
  construction succeeds, and a role-list name absent from the mapping raises nothing: each
  role array is the one built from the role list without such names.
\<close>

theorem C4_invalid_includes:
  "(\<not> set inc \<subseteq> set (dict_keys n2i) \<longrightarrow>
      BaseTensorIndex_init p d f t inc n2i
        = Inl (AssertionError [v \<leftarrow> inc. v \<notin> set (dict_keys n2i)])
      \<and> InputTensorIndex_init p d f t inc n2i kf add
        = Inl (AssertionError [v \<leftarrow> inc. v \<notin> set (dict_keys n2i)])
      \<and> [v \<leftarrow> inc. v \<notin> set (dict_keys n2i)] \<noteq> []
      \<and> set [v \<leftarrow> inc. v \<notin> set (dict_keys n2i)] = set inc - set (dict_keys n2i))
   \<and> (set inc \<subseteq> set (dict_keys n2i) \<longrightarrow>
      (\<exists>ti. BaseTensorIndex_init p d f t inc n2i = Inr ti
         \<and> prognostic ti = build_idx_from_list n2i [v \<leftarrow> p. v \<in> set (dict_keys n2i)]
         \<and> diagnostic ti = build_idx_from_list n2i [v \<leftarrow> d. v \<in> set (dict_keys n2i)]
         \<and> forcing ti = build_idx_from_list n2i [v \<leftarrow> f. v \<in> set (dict_keys n2i)]
         \<and> targets ti = build_idx_from_list n2i [v \<leftarrow> t. v \<in> set (dict_keys n2i)])
      \<and> (\<exists>ti. InputTensorIndex_init p d f t inc n2i kf add = Inr ti
         \<and> prognostic ti = build_idx_from_list n2i [v \<leftarrow> p. v \<in> set (dict_keys n2i)]
         \<and> diagnostic ti = build_idx_from_list n2i [v \<leftarrow> d. v \<in> set (dict_keys n2i)]
         \<and> forcing ti = build_idx_from_list n2i [v \<leftarrow> f. v \<in> set (dict_keys n2i)]
         \<and> targets ti = build_idx_from_list n2i [v \<leftarrow> t. v \<in> set (dict_keys n2i)]))"
proof (intro conjI impI)
  assume bad: "\<not> set inc \<subseteq> set (dict_keys n2i)"
  show "BaseTensorIndex_init p d f t inc n2i
      = Inl (AssertionError [v \<leftarrow> inc. v \<notin> set (dict_keys n2i)])"
    by (rule BaseTensorIndex_init_fail [OF bad])
  show "InputTensorIndex_init p d f t inc n2i kf add
      = Inl (AssertionError [v \<leftarrow> inc. v \<notin> set (dict_keys n2i)])"
    by (rule InputTensorIndex_init_fail [OF bad])
  show "[v \<leftarrow> inc. v \<notin> set (dict_keys n2i)] \<noteq> []"
    using bad by (auto simp: filter_empty_conv)
  show "set [v \<leftarrow> inc. v \<notin> set (dict_keys n2i)] = set inc - set (dict_keys n2i)"
    by auto
next
  assume good: "set inc \<subseteq> set (dict_keys n2i)"
  show "\<exists>ti. BaseTensorIndex_init p d f t inc n2i = Inr ti
         \<and> prognostic ti = build_idx_from_list n2i [v \<leftarrow> p. v \<in> set (dict_keys n2i)]
         \<and> diagnostic ti = build_idx_from_list n2i [v \<leftarrow> d. v \<in> set (dict_keys n2i)]
         \<and> forcing ti = build_idx_from_list n2i [v \<leftarrow> f. v \<in> set (dict_keys n2i)]
         \<and> targets ti = build_idx_from_list n2i [v \<leftarrow> t. v \<in> set (dict_keys n2i)]"
    unfolding BaseTensorIndex_init_ok [OF good]
    by (simp add: build_idx_drop_missing [symmetric])
  obtain ti where built: "InputTensorIndex_init p d f t inc n2i kf add = Inr ti"
    using InputTensorIndex_init_ok [OF good] by blast
  note fields = InputTensorIndex_init_InrD [OF built]
  show "\<exists>ti. InputTensorIndex_init p d f t inc n2i kf add = Inr ti
         \<and> prognostic ti = build_idx_from_list n2i [v \<leftarrow> p. v \<in> set (dict_keys n2i)]
         \<and> diagnostic ti = build_idx_from_list n2i [v \<leftarrow> d. v \<in> set (dict_keys n2i)]
         \<and> forcing ti = build_idx_from_list n2i [v \<leftarrow> f. v \<in> set (dict_keys n2i)]
         \<and> targets ti = build_idx_from_list n2i [v \<leftarrow> t. v \<in> set (dict_keys n2i)]"
    using built fields(4-7) by (simp add: build_idx_drop_missing [symmetric])
qed

theorem C4_invalid_includes_witness:
  "\<not> set [''t'', ''q'', ''w''] \<subseteq> set (dict_keys [(''t'', 0::int), (''u'', 1)])
   \<and> BaseTensorIndex_init [''t''] [] [] [] [''t'', ''q'', ''w''] [(''t'', 0), (''u'', 1)]
       = Inl (AssertionError [''q'', ''w''])
   \<and> set [''t''] \<subseteq> set (dict_keys [(''t'', 0::int), (''u'', 1)])
   \<and> (\<exists>ti. BaseTensorIndex_init [''t'', ''ghost''] [] [''gone''] [] [''t'']
              [(''t'', 0), (''u'', 1)] = Inr ti
          \<and> prognostic ti = [0] \<and> forcing ti = [])"
proof -
  let ?m = "[(''t'', 0::int), (''u'', 1)]"
  have bad: "\<not> set [''t'', ''q'', ''w''] \<subseteq> set (dict_keys ?m)"
    by (simp add: dict_keys_def)
  have good: "set [''t''] \<subseteq> set (dict_keys ?m)"
    by (simp add: dict_keys_def)
  have fail: "BaseTensorIndex_init [''t''] [] [] [] [''t'', ''q'', ''w''] ?m
      = Inl (AssertionError [''q'', ''w''])"
    using C4_invalid_includes [where inc = "[''t'', ''q'', ''w'']" and ?n2i = ?m
        and p = "[''t'']" and d = "[]" and f = "[]" and t = "[]", THEN conjunct1, THEN mp,
        OF bad, THEN conjunct1]
    by (simp add: dict_keys_def)
  have ok: "\<exists>ti. BaseTensorIndex_init [''t'', ''ghost''] [] [''gone''] [] [''t''] ?m = Inr ti
          \<and> prognostic ti = [0] \<and> forcing ti = []"
    using C4_invalid_includes [where inc = "[''t'']" and ?n2i = ?m
        and p = "[''t'', ''ghost'']" and d = "[]" and f = "[''gone'']" and t = "[]",
        THEN conjunct2, THEN mp, OF good, THEN conjunct1]
    by (auto simp: dict_keys_def build_idx_from_list_def to_int_tensor_def float32_def to_int32_def)
  show ?thesis
    by (intro conjI bad good fail ok)
qed

subsection \<open>Role arrays\<close>

lemma key_entry:
  assumes "wf_dict d" and "k \<in> set (dict_keys d)"
  shows "(k, position_of d k) \<in> set d"
proof -
  obtain i where "(k, i) \<in> set d"
    using assms(2) by (auto simp: dict_keys_def)
  then show ?thesis
    using position_of_entry [OF assms(1)] by auto
qed

lemma injective_dict_inj_on:
  assumes "wf_dict d" and "injective_dict d"
  shows "inj_on (position_of d) (set (dict_keys d))"
proof (rule inj_onI)
  fix k k'
  assume "k \<in> set (dict_keys d)" and "k' \<in> set (dict_keys d)"
    and same: "position_of d k = position_of d k'"
  then have "(k, position_of d k) \<in> set d" and "(k', position_of d k') \<in> set d"
    using key_entry [OF assms(1)] by blast+
  then show "k = k'"
    using assms(2) same unfolding injective_dict_def by fastforce
qed

lemma build_idx_set_exact:
  assumes "wf_dict d"
    and "\<forall>n \<in> set l \<inter> set (dict_keys d).
           to_int32 (float32 (position_of d n)) = position_of d n"
  shows "set (build_idx_from_list d l) = position_of d ` (set l \<inter> set (dict_keys d))"
  by (simp only: build_idx_exact [OF assms] sorted_positions_set [OF assms(1)])

lemma role_array_sound:
  assumes "wf_dict d"
    and "\<forall>n \<in> set l \<inter> set (dict_keys d).
           to_int32 (float32 (position_of d n)) = position_of d n"
  shows "\<forall>pos \<in> set (build_idx_from_list d l).
            \<exists>n \<in> set l \<inter> set (dict_keys d). position_of d n = pos"
  unfolding build_idx_set_exact [OF assms] by blast

lemma role_array_exact:
  assumes "wf_dict d" and "injective_dict d"
    and "\<forall>n \<in> set l \<inter> set (dict_keys d).
           to_int32 (float32 (position_of d n)) = position_of d n"
  shows "\<forall>n \<in> set (dict_keys d). n \<notin> set l
            \<longrightarrow> position_of d n \<notin> set (build_idx_from_list d l)"
proof (intro ballI impI notI)
  fix n assume key: "n \<in> set (dict_keys d)" and out: "n \<notin> set l"
    and "position_of d n \<in> set (build_idx_from_list d l)"
  then have "position_of d n \<in> position_of d ` (set l \<inter> set (dict_keys d))"
    by (simp only: build_idx_set_exact [OF assms(1,3)])
  then obtain n' where n': "n' \<in> set l" "n' \<in> set (dict_keys d)"
    and same: "position_of d n' = position_of d n"
    by auto
  have "n' = n"
    using injective_dict_inj_on [OF assms(1,2)] n'(2) key same by (auto dest: inj_onD)
  with n'(1) out show False by simp
qed

lemma role_array_correct:
  assumes "wf_dict d" and "injective_dict d"
  shows "(\<forall>n \<in> set l \<inter> set (dict_keys d).
            to_int32 (float32 (position_of d n)) = position_of d n) \<longrightarrow>
         (\<forall>pos \<in> set (build_idx_from_list d l).
            \<exists>n \<in> set l \<inter> set (dict_keys d). position_of d n = pos)
       \<and> (\<forall>n \<in> set (dict_keys d). n \<notin> set l
            \<longrightarrow> position_of d n \<notin> set (build_idx_from_list d l))
       \<and> build_idx_from_list d l
           = sorted_list_of_set (position_of d ` (set l \<inter> set (dict_keys d)))"
  using role_array_sound [OF assms(1)] role_array_exact [OF assms]
    build_idx_sorted_list_of_set [OF assms]
  by blast

text \<open>
  C5 as stated does not hold: the array holds the positions after the conversion through
  a 32-bit float. For the mapping that places \<open>x\<close> at \<open>16777217\<close> the prognostic array
  of the role list \<open>[x]\<close> is \<open>[16777216]\<close>, which is the position of no name.
\<close>

theorem C5_rounded_role_position_counterexample:
  "BaseTensorIndex_init [''x''] [] [] [] [''x''] [(''x'', 16777217)]
     = Inr \<lparr> name_to_index = [(''x'', 16777217)], includes = [''x''],
             prognostic = [16777216], diagnostic = [], forcing = [], targets = [],
             full = [16777216] \<rparr>
   \<and> dict_keys [(''x'', 16777217 :: int)] = [''x'']
   \<and> position_of [(''x'', 16777217)] ''x'' = 16777217
   \<and> wf_dict [(''x'', 16777217 :: int)]
   \<and> injective_dict [(''x'', 16777217 :: int)]"
  by (simp add: BaseTensorIndex_init_def build_idx_from_list_def dict_keys_def
      to_int_tensor_def float32_16777217 to_int32_def position_of_def
      wf_dict_def injective_dict_def)

text \<open>
  C5 (amended). With an injective mapping, for each of the four roles whose names that
  are keys have positions that the conversion to the 32-bit integer tensor leaves
  unchanged (every position of magnitude at most \<open>2 ^ 24\<close> is such): every position of
  the role's index array is the position of a name that is in the role list and a key of
  the mapping, no key outside the role list has its position in the array, and the array
  is the ascending sort of the positions of the role's names that are keys.
\<close>

theorem C5_role_arrays:
  assumes "wf_dict n2i" and "injective_dict n2i"
  shows "(\<forall>i. \<bar>i\<bar> \<le> 2 ^ 24 \<longrightarrow> to_int32 (float32 i) = i)
       \<and> (BaseTensorIndex_init p d f t inc n2i = Inr ti \<longrightarrow>
           (\<forall>(role, arr) \<in> set [(p, prognostic ti), (d, diagnostic ti),
                                 (f, forcing ti), (t, targets ti)].
              (\<forall>n \<in> set role \<inter> set (dict_keys n2i).
                 to_int32 (float32 (position_of n2i n)) = position_of n2i n) \<longrightarrow>
              (\<forall>pos \<in> set arr. \<exists>n \<in> set role \<inter> set (dict_keys n2i). position_of n2i n = pos)
            \<and> (\<forall>n \<in> set (dict_keys n2i). n \<notin> set role \<longrightarrow> position_of n2i n \<notin> set arr)
            \<and> arr = sorted_list_of_set (position_of n2i ` (set role \<inter> set (dict_keys n2i)))))
       \<and> (InputTensorIndex_init p d f t inc n2i kf add = Inr inp \<longrightarrow>
           (\<forall>(role, arr) \<in> set [(p, prognostic inp), (d, diagnostic inp),
                                 (f, forcing inp), (t, targets inp)].
              (\<forall>n \<in> set role \<inter> set (dict_keys n2i).
                 to_int32 (float32 (position_of n2i n)) = position_of n2i n) \<longrightarrow>
              (\<forall>pos \<in> set arr. \<exists>n \<in> set role \<inter> set (dict_keys n2i). position_of n2i n = pos)
            \<and> (\<forall>n \<in> set (dict_keys n2i). n \<notin> set role \<longrightarrow> position_of n2i n \<notin> set arr)
            \<and> arr = sorted_list_of_set (position_of n2i ` (set role \<inter> set (dict_keys n2i)))))"
proof (intro conjI impI allI)
  fix i :: int assume "\<bar>i\<bar> \<le> 2 ^ 24"
  then show "to_int32 (float32 i) = i"
    by (rule conversion_exact)
next
  assume built: "BaseTensorIndex_init p d f t inc n2i = Inr ti"
  note fields = BaseTensorIndex_init_InrD [OF built]
  show "\<forall>(role, arr) \<in> set [(p, prognostic ti), (d, diagnostic ti),
                                 (f, forcing ti), (t, targets ti)].
              (\<forall>n \<in> set role \<inter> set (dict_keys n2i).
                 to_int32 (float32 (position_of n2i n)) = position_of n2i n) \<longrightarrow>
              (\<forall>pos \<in> set arr. \<exists>n \<in> set role \<inter> set (dict_keys n2i). position_of n2i n = pos)
            \<and> (\<forall>n \<in> set (dict_keys n2i). n \<notin> set role \<longrightarrow> position_of n2i n \<notin> set arr)
            \<and> arr = sorted_list_of_set (position_of n2i ` (set role \<inter> set (dict_keys n2i)))"
    unfolding fields(4-7)
    by (simp only: list.set ball_simps prod.case simp_thms)
      (intro conjI role_array_correct [OF assms])
next
  assume built: "InputTensorIndex_init p d f t inc n2i kf add = Inr inp"
  note fields = InputTensorIndex_init_InrD [OF built]
  show "\<forall>(role, arr) \<in> set [(p, prognostic inp), (d, diagnostic inp),
                                 (f, forcing inp), (t, targets inp)].
              (\<forall>n \<in> set role \<inter> set (dict_keys n2i).
                 to_int32 (float32 (position_of n2i n)) = position_of n2i n) \<longrightarrow>
              (\<forall>pos \<in> set arr. \<exists>n \<in> set role \<inter> set (dict_keys n2i). position_of n2i n = pos)
            \<and> (\<forall>n \<in> set (dict_keys n2i). n \<notin> set role \<longrightarrow> position_of n2i n \<notin> set arr)
            \<and> arr = sorted_list_of_set (position_of n2i ` (set role \<inter> set (dict_keys n2i)))"
    unfolding fields(4-7)
    by (simp only: list.set ball_simps prod.case simp_thms)
      (intro conjI role_array_correct [OF assms])
qed

theorem C5_role_arrays_witness:
  "wf_dict [(''t'', 0), (''u'', 1), (''v'', 2), (''z'', 3), (''sp'', 4::int)]
   \<and> injective_dict [(''t'', 0), (''u'', 1), (''v'', 2), (''z'', 3), (''sp'', 4::int)]
   \<and> BaseTensorIndex_init [''t'', ''u'', ''v''] [''z''] [''sp'', ''ghost''] []
        [''sp'', ''t'', ''u'', ''v'']
        [(''t'', 0), (''u'', 1), (''v'', 2), (''z'', 3), (''sp'', 4)]
      = Inr \<lparr> name_to_index = [(''t'', 0), (''u'', 1), (''v'', 2), (''z'', 3), (''sp'', 4)],
          includes = [''sp'', ''t'', ''u'', ''v''], prognostic = [0, 1, 2], diagnostic = [3],
          forcing = [4], targets = [], full = [0, 1, 2, 4] \<rparr>
   \<and> [4] = sorted_list_of_set
        (position_of [(''t'', 0), (''u'', 1), (''v'', 2), (''z'', 3), (''sp'', 4)]
           ` (set [''sp'', ''ghost'']
              \<inter> set (dict_keys [(''t'', 0), (''u'', 1), (''v'', 2), (''z'', 3), (''sp'', 4::int)])))
   \<and> position_of [(''t'', 0), (''u'', 1), (''v'', 2), (''z'', 3), (''sp'', 4)] ''z''
        \<notin> set [0, 1, 2]"
proof -
  let ?m = "[(''t'', 0), (''u'', 1), (''v'', 2), (''z'', 3), (''sp'', 4::int)]"
  let ?ti = "\<lparr> name_to_index = ?m,
          includes = [''sp'', ''t'', ''u'', ''v''], prognostic = [0, 1, 2], diagnostic = [3],
          forcing = [4], targets = [], full = [0, 1, 2, 4] \<rparr>"
  have w: "wf_dict ?m" by (simp add: wf_dict_def dict_keys_def)
  have inj: "injective_dict ?m" by (simp add: injective_dict_def)
  have built: "BaseTensorIndex_init [''t'', ''u'', ''v''] [''z''] [''sp'', ''ghost''] []
        [''sp'', ''t'', ''u'', ''v''] ?m = Inr ?ti"
    by (simp add: BaseTensorIndex_init_def build_idx_from_list_def dict_keys_def
        to_int_tensor_def float32_def to_int32_def)
  note c5 = C5_role_arrays [OF w inj]
  note small = c5 [THEN conjunct1]
  note roles = c5 [THEN conjunct2, THEN conjunct1, THEN mp, OF built]
  have mem_f: "([''sp'', ''ghost''], forcing ?ti)
      \<in> set [([''t'', ''u'', ''v''], prognostic ?ti), ([''z''], diagnostic ?ti),
             ([''sp'', ''ghost''], forcing ?ti), ([], targets ?ti)]"
    by simp
  have mem_p: "([''t'', ''u'', ''v''], prognostic ?ti)
      \<in> set [([''t'', ''u'', ''v''], prognostic ?ti), ([''z''], diagnostic ?ti),
             ([''sp'', ''ghost''], forcing ?ti), ([], targets ?ti)]"
    by simp
  have bound: "\<bar>position_of ?m n\<bar> \<le> 2 ^ 24" for n
    by (simp add: position_of_def)
  have exact_f: "\<forall>n \<in> set [''sp'', ''ghost''] \<inter> set (dict_keys ?m).
      to_int32 (float32 (position_of ?m n)) = position_of ?m n"
    using small bound by blast
  have exact_p: "\<forall>n \<in> set [''t'', ''u'', ''v''] \<inter> set (dict_keys ?m).
      to_int32 (float32 (position_of ?m n)) = position_of ?m n"
    using small bound by blast
  note forcing_role = roles [THEN bspec, OF mem_f, unfolded prod.case, THEN mp, OF exact_f]
  note prognostic_role = roles [THEN bspec, OF mem_p, unfolded prod.case, THEN mp, OF exact_p]
  have forcing_exact: "[4] = sorted_list_of_set
      (position_of ?m ` (set [''sp'', ''ghost''] \<inter> set (dict_keys ?m)))"
    using forcing_role [THEN conjunct2, THEN conjunct2]
    by (simp only: BaseTensorIndex.simps)
  have z_key: "''z'' \<in> set (dict_keys ?m)" by (simp add: dict_keys_def)
  have z_out: "''z'' \<notin> set [''t'', ''u'', ''v'']" by simp
  have z_pos: "position_of ?m ''z'' \<notin> set [0, 1, 2]"
    using prognostic_role [THEN conjunct2, THEN conjunct1, THEN bspec, OF z_key, THEN mp,
        OF z_out]
    by (simp only: BaseTensorIndex.simps simp_thms)
  show ?thesis
    by (intro conjI w inj built forcing_exact z_pos)
qed

lemma build_idx_strict_distinct:
  assumes "wf_dict d" and "injective_dict d"
  shows "(\<forall>n \<in> set l \<inter> set (dict_keys d). \<forall>n' \<in> set l \<inter> set (dict_keys d).
            position_of d n < position_of d n'
            \<longrightarrow> to_int32 (float32 (position_of d n)) < to_int32 (float32 (position_of d n')))
         \<longrightarrow> sorted_wrt (<) (build_idx_from_list d l) \<and> distinct (build_idx_from_list d l)"
  using build_idx_strict [OF assms, of l] by (simp add: strict_sorted_iff)

lemma conversion_order_small:
  fixes i j :: int
  assumes "\<bar>i\<bar> \<le> 2 ^ 24" and "\<bar>j\<bar> \<le> 2 ^ 24" and "i < j"
  shows "to_int32 (float32 i) < to_int32 (float32 j)"
  using assms by (simp only: conversion_exact)

text \<open>
  C10 as stated does not hold: the positions pass through a 32-bit float before they are
  stored. The injective mapping that places \<open>t\<close> at \<open>16777216\<close> and \<open>u\<close> at
  \<open>16777217\<close> gives the prognostic array \<open>[16777216, 16777216]\<close>, which is neither
  strictly ascending nor free of duplicates.
\<close>

theorem C10_collapsed_positions_counterexample:
  "wf_dict [(''t'', 16777216 :: int), (''u'', 16777217)]
   \<and> injective_dict [(''t'', 16777216 :: int), (''u'', 16777217)]
   \<and> BaseTensorIndex_init [''t'', ''u''] [] [] [] [''t'', ''u'']
        [(''t'', 16777216), (''u'', 16777217)]
      = Inr \<lparr> name_to_index = [(''t'', 16777216), (''u'', 16777217)],
              includes = [''t'', ''u''], prognostic = [16777216, 16777216],
              diagnostic = [], forcing = [], targets = [],
              full = [16777216, 16777216] \<rparr>
   \<and> \<not> sorted_wrt (<) [16777216, 16777216 :: int]
   \<and> \<not> distinct [16777216, 16777216 :: int]"
  by (simp add: BaseTensorIndex_init_def build_idx_from_list_def dict_keys_def
      to_int_tensor_def float32_16777216 float32_16777217 to_int32_def
      wf_dict_def injective_dict_def)

text \<open>
  C10 (amended). With a mapping that gives distinct names distinct positions, each of the
  five index arrays is strictly ascending and free of duplicates, also when the input lists
  repeat names, provided the positions of the names of its list keep their order under the
  conversion to the 32-bit integer tensor (positions of magnitude at most \<open>2 ^ 24\<close> do);
  lists with the same sets of names give the same arrays, whatever the positions.
\<close>

theorem C10_arrays_canonical:
  assumes "wf_dict n2i" and "injective_dict n2i"
  shows "(\<forall>i j. \<bar>i\<bar> \<le> 2 ^ 24 \<and> \<bar>j\<bar> \<le> 2 ^ 24 \<and> i < j
            \<longrightarrow> to_int32 (float32 i) < to_int32 (float32 j))
       \<and> (BaseTensorIndex_init p d f t inc n2i = Inr ti \<longrightarrow>
           (\<forall>(names, arr) \<in> set [(p, prognostic ti), (d, diagnostic ti), (f, forcing ti),
                                  (t, targets ti), (inc, full ti)].
              (\<forall>n \<in> set names \<inter> set (dict_keys n2i).
               \<forall>n' \<in> set names \<inter> set (dict_keys n2i).
                 position_of n2i n < position_of n2i n'
                 \<longrightarrow> to_int32 (float32 (position_of n2i n))
                       < to_int32 (float32 (position_of n2i n')))
              \<longrightarrow> sorted_wrt (<) arr \<and> distinct arr)
         \<and> (set p' = set p \<and> set d' = set d \<and> set f' = set f \<and> set t' = set t
              \<and> set inc' = set inc \<longrightarrow>
             (\<exists>ti'. BaseTensorIndex_init p' d' f' t' inc' n2i = Inr ti'
                \<and> prognostic ti' = prognostic ti \<and> diagnostic ti' = diagnostic ti
                \<and> forcing ti' = forcing ti \<and> targets ti' = targets ti
                \<and> full ti' = full ti)))
       \<and> (InputTensorIndex_init p d f t inc n2i kf add = Inr inp \<longrightarrow>
           (\<forall>(names, arr) \<in> set [(p, prognostic inp), (d, diagnostic inp), (f, forcing inp),
                                  (t, targets inp), (inc, full inp)].
              (\<forall>n \<in> set names \<inter> set (dict_keys n2i).
               \<forall>n' \<in> set names \<inter> set (dict_keys n2i).
                 position_of n2i n < position_of n2i n'
                 \<longrightarrow> to_int32 (float32 (position_of n2i n))
                       < to_int32 (float32 (position_of n2i n')))
              \<longrightarrow> sorted_wrt (<) arr \<and> distinct arr)
         \<and> (set p' = set p \<and> set d' = set d \<and> set f' = set f \<and> set t' = set t
              \<and> set inc' = set inc \<longrightarrow>
             (\<exists>inp'. InputTensorIndex_init p' d' f' t' inc' n2i kf add = Inr inp'
                \<and> prognostic inp' = prognostic inp \<and> diagnostic inp' = diagnostic inp
                \<and> forcing inp' = forcing inp \<and> targets inp' = targets inp
                \<and> full inp' = full inp)))"
proof (intro conjI impI allI)
  fix i j :: int
  assume "\<bar>i\<bar> \<le> 2 ^ 24 \<and> \<bar>j\<bar> \<le> 2 ^ 24 \<and> i < j"
  then show "to_int32 (float32 i) < to_int32 (float32 j)"
    by (simp add: conversion_order_small)
next
  assume built: "BaseTensorIndex_init p d f t inc n2i = Inr ti"
  note fields = BaseTensorIndex_init_InrD [OF built]
  show "\<forall>(names, arr) \<in> set [(p, prognostic ti), (d, diagnostic ti), (f, forcing ti),
                                  (t, targets ti), (inc, full ti)].
              (\<forall>n \<in> set names \<inter> set (dict_keys n2i).
               \<forall>n' \<in> set names \<inter> set (dict_keys n2i).
                 position_of n2i n < position_of n2i n'
                 \<longrightarrow> to_int32 (float32 (position_of n2i n))
                       < to_int32 (float32 (position_of n2i n')))
              \<longrightarrow> sorted_wrt (<) arr \<and> distinct arr"
    unfolding fields(4-8)
    by (simp only: list.set ball_simps prod.case simp_thms)
      (intro conjI build_idx_strict_distinct [OF assms])
  assume same: "set p' = set p \<and> set d' = set d \<and> set f' = set f \<and> set t' = set t
      \<and> set inc' = set inc"
  then have keys: "set inc' \<subseteq> set (dict_keys n2i)"
    using fields(1) by simp
  show "\<exists>ti'. BaseTensorIndex_init p' d' f' t' inc' n2i = Inr ti'
      \<and> prognostic ti' = prognostic ti \<and> diagnostic ti' = diagnostic ti
      \<and> forcing ti' = forcing ti \<and> targets ti' = targets ti \<and> full ti' = full ti"
    unfolding BaseTensorIndex_init_ok [OF keys] fields(4-8)
    using same by (simp add: build_idx_cong_set [of p' p] build_idx_cong_set [of d' d]
        build_idx_cong_set [of f' f] build_idx_cong_set [of t' t]
        build_idx_cong_set [of inc' inc])
next
  assume built: "InputTensorIndex_init p d f t inc n2i kf add = Inr inp"
  note fields = InputTensorIndex_init_InrD [OF built]
  show "\<forall>(names, arr) \<in> set [(p, prognostic inp), (d, diagnostic inp), (f, forcing inp),
                                  (t, targets inp), (inc, full inp)].
              (\<forall>n \<in> set names \<inter> set (dict_keys n2i).
               \<forall>n' \<in> set names \<inter> set (dict_keys n2i).
                 position_of n2i n < position_of n2i n'
                 \<longrightarrow> to_int32 (float32 (position_of n2i n))
                       < to_int32 (float32 (position_of n2i n')))
              \<longrightarrow> sorted_wrt (<) arr \<and> distinct arr"
    unfolding fields(4-8)
    by (simp only: list.set ball_simps prod.case simp_thms)
      (intro conjI build_idx_strict_distinct [OF assms])
  assume same: "set p' = set p \<and> set d' = set d \<and> set f' = set f \<and> set t' = set t
      \<and> set inc' = set inc"
  then have keys: "set inc' \<subseteq> set (dict_keys n2i)"
    using fields(1) by simp
  obtain inp' where built': "InputTensorIndex_init p' d' f' t' inc' n2i kf add = Inr inp'"
    using InputTensorIndex_init_ok [OF keys] by blast
  note fields' = InputTensorIndex_init_InrD [OF built']
  have "prognostic inp' = prognostic inp \<and> diagnostic inp' = diagnostic inp
      \<and> forcing inp' = forcing inp \<and> targets inp' = targets inp \<and> full inp' = full inp"
    unfolding fields(4-8) fields'(4-8)
    using same by (simp add: build_idx_cong_set [of p' p] build_idx_cong_set [of d' d]
        build_idx_cong_set [of f' f] build_idx_cong_set [of t' t]
        build_idx_cong_set [of inc' inc])
  with built' show "\<exists>inp'. InputTensorIndex_init p' d' f' t' inc' n2i kf add = Inr inp'
      \<and> prognostic inp' = prognostic inp \<and> diagnostic inp' = diagnostic inp
      \<and> forcing inp' = forcing inp \<and> targets inp' = targets inp \<and> full inp' = full inp"
    by blast
qed

theorem C10_arrays_canonical_witness:
  "wf_dict [(''t'', 0), (''u'', 1), (''v'', 2), (''z'', 3), (''sp'', 4::int)]
   \<and> injective_dict [(''t'', 0), (''u'', 1), (''v'', 2), (''z'', 3), (''sp'', 4::int)]
   \<and> BaseTensorIndex_init [''v'', ''t'', ''v'', ''u''] [''z'', ''z''] [''sp''] []
        [''v'', ''sp'', ''t'', ''u'', ''sp'']
        [(''t'', 0), (''u'', 1), (''v'', 2), (''z'', 3), (''sp'', 4)]
      = Inr \<lparr> name_to_index = [(''t'', 0), (''u'', 1), (''v'', 2), (''z'', 3), (''sp'', 4)],
          includes = [''v'', ''sp'', ''t'', ''u'', ''sp''], prognostic = [0, 1, 2],
          diagnostic = [3], forcing = [4], targets = [], full = [0, 1, 2, 4] \<rparr>
   \<and> sorted_wrt (<) [0, 1, 2, 4::int] \<and> distinct [0, 1, 2, 4::int]
   \<and> (\<exists>ti'. BaseTensorIndex_init [''t'', ''u'', ''v''] [''z''] [''sp''] []
              [''sp'', ''t'', ''u'', ''v'']
              [(''t'', 0), (''u'', 1), (''v'', 2), (''z'', 3), (''sp'', 4)] = Inr ti'
          \<and> prognostic ti' = [0, 1, 2] \<and> full ti' = [0, 1, 2, 4])"
proof -
  let ?m = "[(''t'', 0), (''u'', 1), (''v'', 2), (''z'', 3), (''sp'', 4::int)]"
  let ?inc = "[''v'', ''sp'', ''t'', ''u'', ''sp'']"
  let ?ti = "\<lparr> name_to_index = ?m,
          includes = ?inc, prognostic = [0, 1, 2],
          diagnostic = [3], forcing = [4], targets = [], full = [0, 1, 2, 4] \<rparr>"
  have w: "wf_dict ?m" by (simp add: wf_dict_def dict_keys_def)
  have inj: "injective_dict ?m" by (simp add: injective_dict_def)
  have built: "BaseTensorIndex_init [''v'', ''t'', ''v'', ''u''] [''z'', ''z''] [''sp''] []
        ?inc ?m = Inr ?ti"
    by (simp add: BaseTensorIndex_init_def build_idx_from_list_def dict_keys_def
        to_int_tensor_def float32_def to_int32_def)
  note c10 = C10_arrays_canonical [OF w inj, where p' = "[''t'', ''u'', ''v'']"
      and d' = "[''z'']" and f' = "[''sp'']" and t' = "[]"
      and inc' = "[''sp'', ''t'', ''u'', ''v'']"]
  note order_small = c10 [THEN conjunct1]
  note canon = c10 [THEN conjunct2, THEN conjunct1, THEN mp, OF built]
  have mem: "(?inc, full ?ti)
      \<in> set [([''v'', ''t'', ''v'', ''u''], prognostic ?ti), ([''z'', ''z''], diagnostic ?ti),
             ([''sp''], forcing ?ti), ([], targets ?ti), (?inc, full ?ti)]"
    by simp
  have bound: "\<bar>position_of ?m n\<bar> \<le> 2 ^ 24" for n
    by (simp add: position_of_def)
  have order: "\<forall>n \<in> set ?inc \<inter> set (dict_keys ?m). \<forall>n' \<in> set ?inc \<inter> set (dict_keys ?m).
      position_of ?m n < position_of ?m n'
      \<longrightarrow> to_int32 (float32 (position_of ?m n)) < to_int32 (float32 (position_of ?m n'))"
    using order_small bound by blast
  have strict: "sorted_wrt (<) [0, 1, 2, 4::int] \<and> distinct [0, 1, 2, 4::int]"
    using canon [THEN conjunct1, THEN bspec, OF mem, unfolded prod.case, THEN mp, OF order]
    by (simp only: BaseTensorIndex.simps)
  have same: "set [''t'', ''u'', ''v''] = set [''v'', ''t'', ''v'', ''u'']
      \<and> set [''z''] = set [''z'', ''z''] \<and> set [''sp''] = set [''sp''] \<and> set [] = set ([]::string list)
      \<and> set [''sp'', ''t'', ''u'', ''v''] = set ?inc"
    by auto
  have again: "\<exists>ti'. BaseTensorIndex_init [''t'', ''u'', ''v''] [''z''] [''sp''] []
              [''sp'', ''t'', ''u'', ''v''] ?m = Inr ti'
          \<and> prognostic ti' = [0, 1, 2] \<and> full ti' = [0, 1, 2, 4]"
    using canon [THEN conjunct2, THEN mp, OF same]
    by (simp only: BaseTensorIndex.simps) blast
  show ?thesis
    using strict by (intro conjI w inj built again) simp_all
qed

subsection \<open>DataIndex and ModelIndex\<close>

lemma derived_prognostic_keys:
  "set [v \<leftarrow> dict_keys n2i. v \<notin> set others] \<subseteq> set (dict_keys n2i)"
  by auto

lemma missing_of_input_includes:
  "[var \<leftarrow> fc @ [v \<leftarrow> dict_keys n2i. v \<notin> set others]. var \<notin> set (dict_keys n2i)]
     = [var \<leftarrow> fc. var \<notin> set (dict_keys n2i)]"
  by (simp add: filter_empty_conv)

lemma DataIndex_init_InrD:
  assumes "DataIndex_init dg fc tg n2i = Inr di"
  shows "di_prognostic di = [v \<leftarrow> dict_keys n2i. v \<notin> set (fc @ dg @ tg)]"
    and "InputTensorIndex_init (di_prognostic di) dg fc tg (fc @ di_prognostic di) n2i
           None None = Inr (input di)"
    and "OutputTensorIndex_init (di_prognostic di) dg fc tg (dg @ tg) n2i = Inr (output di)"
    and "di_diagnostic di = dg" and "di_forcing di = fc" and "di_targets di = tg"
    and "di_name_to_index di = n2i"
  using assms unfolding DataIndex_init_def Let_def
  by (auto split: sum.splits)

lemma ModelIndex_init_InrD:
  assumes "ModelIndex_init dg fc tg n2i_in n2i_out kf add = Inr mi"
  shows "mi_prognostic mi = [v \<leftarrow> dict_keys n2i_in. v \<notin> set (fc @ dg @ tg)]"
    and "InputTensorIndex_init (mi_prognostic mi) dg fc tg (fc @ mi_prognostic mi) n2i_in
           (Some kf) (Some add) = Inr (input mi)"
    and "OutputTensorIndex_init (mi_prognostic mi) dg fc tg (dg @ tg) n2i_out
           = Inr (output mi)"
    and "mi_diagnostic mi = dg" and "mi_forcing mi = fc" and "mi_targets mi = tg"
    and "mi_known_future_variables mi = kf" and "mi_additional_model_variables mi = add"
  using assms unfolding ModelIndex_init_def Let_def
  by (auto split: sum.splits)

lemma DataIndex_init_input_fail:
  assumes "\<not> set fc \<subseteq> set (dict_keys n2i)"
  shows "DataIndex_init dg fc tg n2i
           = Inl (AssertionError [var \<leftarrow> fc. var \<notin> set (dict_keys n2i)])"
proof -
  let ?pr = "[v \<leftarrow> dict_keys n2i. v \<notin> set (fc @ dg @ tg)]"
  have bad: "\<not> set (fc @ ?pr) \<subseteq> set (dict_keys n2i)"
    using assms by auto
  have "InputTensorIndex_init ?pr dg fc tg (fc @ ?pr) n2i None None
      = Inl (AssertionError [var \<leftarrow> fc. var \<notin> set (dict_keys n2i)])"
    using InputTensorIndex_init_fail [OF bad, of ?pr dg fc tg None None]
    by (simp only: missing_of_input_includes)
  then show ?thesis
    by (simp add: DataIndex_init_def Let_def)
qed

lemma ModelIndex_init_input_fail:
  assumes "\<not> set fc \<subseteq> set (dict_keys n2i_in)"
  shows "ModelIndex_init dg fc tg n2i_in n2i_out kf add
           = Inl (AssertionError [var \<leftarrow> fc. var \<notin> set (dict_keys n2i_in)])"
proof -
  let ?pr = "[v \<leftarrow> dict_keys n2i_in. v \<notin> set (fc @ dg @ tg)]"
  have bad: "\<not> set (fc @ ?pr) \<subseteq> set (dict_keys n2i_in)"
    using assms by auto
  have "InputTensorIndex_init ?pr dg fc tg (fc @ ?pr) n2i_in (Some kf) (Some add)
      = Inl (AssertionError [var \<leftarrow> fc. var \<notin> set (dict_keys n2i_in)])"
    using InputTensorIndex_init_fail [OF bad, of ?pr dg fc tg "Some kf" "Some add"]
    by (simp only: missing_of_input_includes)
  then show ?thesis
    by (simp add: ModelIndex_init_def Let_def)
qed

lemma ModelIndex_init_output_fail:
  assumes "set fc \<subseteq> set (dict_keys n2i_in)"
    and "\<not> set (dg @ tg) \<subseteq> set (dict_keys n2i_out)"
  shows "ModelIndex_init dg fc tg n2i_in n2i_out kf add
           = Inl (AssertionError [var \<leftarrow> dg @ tg. var \<notin> set (dict_keys n2i_out)])"
proof -
  let ?pr = "[v \<leftarrow> dict_keys n2i_in. v \<notin> set (fc @ dg @ tg)]"
  have "set (fc @ ?pr) \<subseteq> set (dict_keys n2i_in)"
    using assms(1) by auto
  then obtain inp where "InputTensorIndex_init ?pr dg fc tg (fc @ ?pr) n2i_in
      (Some kf) (Some add) = Inr inp"
    using InputTensorIndex_init_ok by blast
  moreover have "OutputTensorIndex_init ?pr dg fc tg (dg @ tg) n2i_out
      = Inl (AssertionError [var \<leftarrow> dg @ tg. var \<notin> set (dict_keys n2i_out)])"
    unfolding OutputTensorIndex_init_def by (rule BaseTensorIndex_init_fail [OF assms(2)])
  ultimately show ?thesis
    by (simp add: ModelIndex_init_def Let_def)
qed

lemma DataIndex_init_ok:
  assumes "set fc \<subseteq> set (dict_keys n2i)" and "set (dg @ tg) \<subseteq> set (dict_keys n2i)"
  shows "\<exists>di. DataIndex_init dg fc tg n2i = Inr di"
proof -
  let ?pr = "[v \<leftarrow> dict_keys n2i. v \<notin> set (fc @ dg @ tg)]"
  have "set (fc @ ?pr) \<subseteq> set (dict_keys n2i)"
    using assms(1) by auto
  then obtain inp where "InputTensorIndex_init ?pr dg fc tg (fc @ ?pr) n2i None None = Inr inp"
    using InputTensorIndex_init_ok by blast
  moreover obtain out where "OutputTensorIndex_init ?pr dg fc tg (dg @ tg) n2i = Inr out"
    unfolding OutputTensorIndex_init_def BaseTensorIndex_init_ok [OF assms(2)] by blast
  ultimately show ?thesis
    by (simp add: DataIndex_init_def Let_def)
qed

lemma ModelIndex_init_ok:
  assumes "set fc \<subseteq> set (dict_keys n2i_in)"
    and "set (dg @ tg) \<subseteq> set (dict_keys n2i_out)"
  shows "\<exists>mi. ModelIndex_init dg fc tg n2i_in n2i_out kf add = Inr mi"
proof -
  let ?pr = "[v \<leftarrow> dict_keys n2i_in. v \<notin> set (fc @ dg @ tg)]"
  have "set (fc @ ?pr) \<subseteq> set (dict_keys n2i_in)"
    using assms(1) by auto
  then obtain inp where "InputTensorIndex_init ?pr dg fc tg (fc @ ?pr) n2i_in
      (Some kf) (Some add) = Inr inp"
    using InputTensorIndex_init_ok by blast
  moreover obtain out where "OutputTensorIndex_init ?pr dg fc tg (dg @ tg) n2i_out = Inr out"
    unfolding OutputTensorIndex_init_def BaseTensorIndex_init_ok [OF assms(2)] by blast
  ultimately show ?thesis
    by (simp add: ModelIndex_init_def Let_def)
qed

text \<open>
  C2. In every DataIndex and ModelIndex construction the derived prognostic list is the
  list of the keys of the (input) mapping, in the mapping's order, that are in none of
  diagnostic, forcing and targets. It is disjoint from these three lists, and when they
  hold only keys of the mapping, the four lists together cover exactly the mapping's keys.
\<close>

theorem C2_prognostic_complement:
  "(DataIndex_init dg fc tg n2i = Inr di \<longrightarrow>
      di_prognostic di = [v \<leftarrow> dict_keys n2i. v \<notin> set dg \<union> set fc \<union> set tg]
      \<and> set (di_prognostic di) \<inter> (set dg \<union> set fc \<union> set tg) = {}
      \<and> (set dg \<union> set fc \<union> set tg \<subseteq> set (dict_keys n2i) \<longrightarrow>
           set (di_prognostic di) \<union> set dg \<union> set fc \<union> set tg = set (dict_keys n2i)))
   \<and> (ModelIndex_init dg fc tg n2i_in n2i_out kf add = Inr mi \<longrightarrow>
      mi_prognostic mi = [v \<leftarrow> dict_keys n2i_in. v \<notin> set dg \<union> set fc \<union> set tg]
      \<and> set (mi_prognostic mi) \<inter> (set dg \<union> set fc \<union> set tg) = {}
      \<and> (set dg \<union> set fc \<union> set tg \<subseteq> set (dict_keys n2i_in) \<longrightarrow>
           set (mi_prognostic mi) \<union> set dg \<union> set fc \<union> set tg = set (dict_keys n2i_in)))"
proof (intro conjI impI)
  assume built: "DataIndex_init dg fc tg n2i = Inr di"
  have pr: "di_prognostic di = [v \<leftarrow> dict_keys n2i. v \<notin> set dg \<union> set fc \<union> set tg]"
    unfolding DataIndex_init_InrD(1) [OF built] by (intro filter_cong refl) auto
  show "di_prognostic di = [v \<leftarrow> dict_keys n2i. v \<notin> set dg \<union> set fc \<union> set tg]"
    by (rule pr)
  show "set (di_prognostic di) \<inter> (set dg \<union> set fc \<union> set tg) = {}"
    unfolding pr by auto
  assume "set dg \<union> set fc \<union> set tg \<subseteq> set (dict_keys n2i)"
  then show "set (di_prognostic di) \<union> set dg \<union> set fc \<union> set tg = set (dict_keys n2i)"
    unfolding pr by auto
next
  assume built: "ModelIndex_init dg fc tg n2i_in n2i_out kf add = Inr mi"
  have pr: "mi_prognostic mi = [v \<leftarrow> dict_keys n2i_in. v \<notin> set dg \<union> set fc \<union> set tg]"
    unfolding ModelIndex_init_InrD(1) [OF built] by (intro filter_cong refl) auto
  show "mi_prognostic mi = [v \<leftarrow> dict_keys n2i_in. v \<notin> set dg \<union> set fc \<union> set tg]"
    by (rule pr)
  show "set (mi_prognostic mi) \<inter> (set dg \<union> set fc \<union> set tg) = {}"
    unfolding pr by auto
  assume "set dg \<union> set fc \<union> set tg \<subseteq> set (dict_keys n2i_in)"
  then show "set (mi_prognostic mi) \<union> set dg \<union> set fc \<union> set tg = set (dict_keys n2i_in)"
    unfolding pr by auto
qed

theorem C2_prognostic_complement_witness:
  "(\<exists>di. DataIndex_init [''z''] [''sp''] []
            [(''t'', 0), (''u'', 1), (''v'', 2), (''z'', 3), (''sp'', 4)] = Inr di
        \<and> di_prognostic di = [''t'', ''u'', ''v'']
        \<and> set (di_prognostic di) \<union> set [''z''] \<union> set [''sp''] \<union> set []
            = set (dict_keys [(''t'', 0), (''u'', 1), (''v'', 2), (''z'', 3), (''sp'', 4::int)]))
   \<and> set [''z''] \<union> set [''sp''] \<union> set []
        \<subseteq> set (dict_keys [(''t'', 0), (''u'', 1), (''v'', 2), (''z'', 3), (''sp'', 4::int)])
   \<and> (\<exists>mi. ModelIndex_init [''z''] [''sp''] []
            [(''t'', 0), (''u'', 1), (''v'', 2), (''z'', 3), (''sp'', 4)]
            [(''z'', 0)] [''sp''] [] = Inr mi
        \<and> mi_prognostic mi = [''t'', ''u'', ''v'']
        \<and> set (mi_prognostic mi) \<union> set [''z''] \<union> set [''sp''] \<union> set []
            = set (dict_keys [(''t'', 0), (''u'', 1), (''v'', 2), (''z'', 3), (''sp'', 4::int)]))"
proof -
  let ?m = "[(''t'', 0), (''u'', 1), (''v'', 2), (''z'', 3), (''sp'', 4::int)]"
  have sub: "set [''z''] \<union> set [''sp''] \<union> set [] \<subseteq> set (dict_keys ?m)"
    by (simp add: dict_keys_def)
  have keys: "[v \<leftarrow> dict_keys ?m. v \<notin> set [''z''] \<union> set [''sp''] \<union> set []]
      = [''t'', ''u'', ''v'']"
    by (simp add: dict_keys_def)
  obtain di where di: "DataIndex_init [''z''] [''sp''] [] ?m = Inr di"
    using DataIndex_init_ok [of "[''sp'']" ?m "[''z'']" "[]"]
    by (auto simp: dict_keys_def)
  note data = C2_prognostic_complement [where dg = "[''z'']" and fc = "[''sp'']"
      and tg = "[]" and ?n2i = ?m and di = di, THEN conjunct1, THEN mp, OF di]
  have d1: "di_prognostic di = [''t'', ''u'', ''v'']"
    using data [THEN conjunct1] by (simp only: keys)
  have d2: "set (di_prognostic di) \<union> set [''z''] \<union> set [''sp''] \<union> set []
      = set (dict_keys ?m)"
    by (rule data [THEN conjunct2, THEN conjunct2, THEN mp, OF sub])
  obtain mi where mi: "ModelIndex_init [''z''] [''sp''] [] ?m [(''z'', 0)] [''sp''] [] = Inr mi"
    using ModelIndex_init_ok [of "[''sp'']" ?m "[''z'']" "[]" "[(''z'', 0)]" "[''sp'']" "[]"]
    by (auto simp: dict_keys_def)
  note model = C2_prognostic_complement [where dg = "[''z'']" and fc = "[''sp'']"
      and tg = "[]" and ?n2i_in = ?m and mi = mi, THEN conjunct2, THEN mp, OF mi]
  have m1: "mi_prognostic mi = [''t'', ''u'', ''v'']"
    using model [THEN conjunct1] by (simp only: keys)
  have m2: "set (mi_prognostic mi) \<union> set [''z''] \<union> set [''sp''] \<union> set []
      = set (dict_keys ?m)"
    by (rule model [THEN conjunct2, THEN conjunct2, THEN mp, OF sub])
  show ?thesis
    using di d1 d2 sub mi m1 m2 by blast
qed

text \<open>
  C9 as stated does not hold for ModelIndex: the input tensor index is built first, so
  when a forcing name is missing from the input mapping the construction fails there, with
  the forcing names in the error, and the output tensor index (whose own check would
  report the diagnostic name) is never built.
\<close>

theorem C9_fails_at_input_counterexample:
  "\<not> set ([''z''] @ []) \<subseteq> set (dict_keys [(''t'', 0::int)])
   \<and> ModelIndex_init [''z''] [''q''] [] [(''t'', 0)] [(''t'', 0)] [] []
       = Inl (AssertionError [''q''])
   \<and> InputTensorIndex_init [''t''] [''z''] [''q''] [] ([''q''] @ [''t'']) [(''t'', 0)]
         (Some []) (Some [])
       = Inl (AssertionError [''q''])
   \<and> OutputTensorIndex_init [''t''] [''z''] [''q''] [] ([''z''] @ []) [(''t'', 0)]
       = Inl (AssertionError [''z''])"
  by (simp add: ModelIndex_init_def InputTensorIndex_init_def OutputTensorIndex_init_def
      BaseTensorIndex_init_def dict_keys_def)

text \<open>
  C9 (amended). A DataIndex construction with a forcing name that is not a key of the
  mapping fails with the assertion error of the input tensor index, although the tensor
  index itself accepts role-list names that are not keys. A ModelIndex construction with a
  diagnostic or target name that is not a key of the output mapping fails with the
  assertion error: that of the output tensor index when every forcing name is a key of the
  input mapping, and that of the input tensor index otherwise.
\<close>

theorem C9_index_missing_names:
  "(\<not> set fc \<subseteq> set (dict_keys n2i) \<longrightarrow>
      DataIndex_init dg fc tg n2i
        = Inl (AssertionError [v \<leftarrow> fc. v \<notin> set (dict_keys n2i)]))
   \<and> (set inc \<subseteq> set (dict_keys n2i) \<longrightarrow>
      (\<exists>ti. BaseTensorIndex_init p dg fc tg inc n2i = Inr ti))
   \<and> (\<not> set (dg @ tg) \<subseteq> set (dict_keys n2i_out) \<longrightarrow>
      (set fc \<subseteq> set (dict_keys n2i_in) \<longrightarrow>
         ModelIndex_init dg fc tg n2i_in n2i_out kf add
           = Inl (AssertionError [v \<leftarrow> dg @ tg. v \<notin> set (dict_keys n2i_out)])
         \<and> OutputTensorIndex_init [v \<leftarrow> dict_keys n2i_in. v \<notin> set (fc @ dg @ tg)]
              dg fc tg (dg @ tg) n2i_out
           = Inl (AssertionError [v \<leftarrow> dg @ tg. v \<notin> set (dict_keys n2i_out)]))
      \<and> (\<not> set fc \<subseteq> set (dict_keys n2i_in) \<longrightarrow>
         ModelIndex_init dg fc tg n2i_in n2i_out kf add
           = Inl (AssertionError [v \<leftarrow> fc. v \<notin> set (dict_keys n2i_in)])))"
proof (intro conjI impI)
  assume "\<not> set fc \<subseteq> set (dict_keys n2i)"
  then show "DataIndex_init dg fc tg n2i
      = Inl (AssertionError [v \<leftarrow> fc. v \<notin> set (dict_keys n2i)])"
    by (rule DataIndex_init_input_fail)
next
  assume "set inc \<subseteq> set (dict_keys n2i)"
  then show "\<exists>ti. BaseTensorIndex_init p dg fc tg inc n2i = Inr ti"
    by (simp add: BaseTensorIndex_init_ok)
next
  assume out: "\<not> set (dg @ tg) \<subseteq> set (dict_keys n2i_out)"
    and inp: "set fc \<subseteq> set (dict_keys n2i_in)"
  show "ModelIndex_init dg fc tg n2i_in n2i_out kf add
      = Inl (AssertionError [v \<leftarrow> dg @ tg. v \<notin> set (dict_keys n2i_out)])"
    by (rule ModelIndex_init_output_fail [OF inp out])
  show "OutputTensorIndex_init [v \<leftarrow> dict_keys n2i_in. v \<notin> set (fc @ dg @ tg)]
        dg fc tg (dg @ tg) n2i_out
      = Inl (AssertionError [v \<leftarrow> dg @ tg. v \<notin> set (dict_keys n2i_out)])"
    unfolding OutputTensorIndex_init_def by (rule BaseTensorIndex_init_fail [OF out])
next
  assume "\<not> set fc \<subseteq> set (dict_keys n2i_in)"
  then show "ModelIndex_init dg fc tg n2i_in n2i_out kf add
      = Inl (AssertionError [v \<leftarrow> fc. v \<notin> set (dict_keys n2i_in)])"
    by (rule ModelIndex_init_input_fail)
qed

theorem C9_index_missing_names_witness:
  "\<not> set [''sp'', ''q''] \<subseteq> set (dict_keys [(''t'', 0::int), (''sp'', 1)])
   \<and> DataIndex_init [] [''sp'', ''q''] [] [(''t'', 0), (''sp'', 1)]
       = Inl (AssertionError [''q''])
   \<and> set [''t''] \<subseteq> set (dict_keys [(''t'', 0::int), (''sp'', 1)])
   \<and> (\<exists>ti. BaseTensorIndex_init [''t''] [] [''sp'', ''q''] [] [''t'']
              [(''t'', 0), (''sp'', 1)] = Inr ti)
   \<and> \<not> set ([''z''] @ [''y'']) \<subseteq> set (dict_keys [(''y'', 0::int)])
   \<and> set [''sp''] \<subseteq> set (dict_keys [(''t'', 0::int), (''sp'', 1)])
   \<and> ModelIndex_init [''z''] [''sp''] [''y''] [(''t'', 0), (''sp'', 1)] [(''y'', 0)] [] []
       = Inl (AssertionError [''z''])
   \<and> ModelIndex_init [''z''] [''sp'', ''q''] [''y''] [(''t'', 0), (''sp'', 1)] [(''y'', 0)] [] []
       = Inl (AssertionError [''q''])"
proof -
  let ?m = "[(''t'', 0::int), (''sp'', 1)]"
  let ?o = "[(''y'', 0::int)]"
  have bad_f: "\<not> set [''sp'', ''q''] \<subseteq> set (dict_keys ?m)"
    by (simp add: dict_keys_def)
  have good_i: "set [''t''] \<subseteq> set (dict_keys ?m)"
    by (simp add: dict_keys_def)
  have bad_o: "\<not> set ([''z''] @ [''y'']) \<subseteq> set (dict_keys ?o)"
    by (simp add: dict_keys_def)
  have good_f: "set [''sp''] \<subseteq> set (dict_keys ?m)"
    by (simp add: dict_keys_def)
  have data: "DataIndex_init [] [''sp'', ''q''] [] ?m = Inl (AssertionError [''q''])"
    using C9_index_missing_names [where fc = "[''sp'', ''q'']" and ?n2i = ?m and dg = "[]"
        and tg = "[]", THEN conjunct1, THEN mp, OF bad_f]
    by (simp add: dict_keys_def)
  have tensor: "\<exists>ti. BaseTensorIndex_init [''t''] [] [''sp'', ''q''] [] [''t''] ?m = Inr ti"
    by (rule C9_index_missing_names [where inc = "[''t'']" and ?n2i = ?m,
          THEN conjunct2, THEN conjunct1, THEN mp, OF good_i])
  have at_output: "ModelIndex_init [''z''] [''sp''] [''y''] ?m ?o [] []
      = Inl (AssertionError [''z''])"
    using C9_index_missing_names [where dg = "[''z'']" and tg = "[''y'']" and ?n2i_out = ?o
        and fc = "[''sp'']" and ?n2i_in = ?m and kf = "[]" and add = "[]",
        THEN conjunct2, THEN conjunct2, THEN mp, OF bad_o, THEN conjunct1, THEN mp,
        OF good_f, THEN conjunct1]
    by (simp add: dict_keys_def)
  have at_input: "ModelIndex_init [''z''] [''sp'', ''q''] [''y''] ?m ?o [] []
      = Inl (AssertionError [''q''])"
    using C9_index_missing_names [where dg = "[''z'']" and tg = "[''y'']" and ?n2i_out = ?o
        and fc = "[''sp'', ''q'']" and ?n2i_in = ?m and kf = "[]" and add = "[]",
        THEN conjunct2, THEN conjunct2, THEN mp, OF bad_o, THEN conjunct2, THEN mp,
        OF bad_f]
    by (simp add: dict_keys_def)
  show ?thesis
    by (intro conjI bad_f data good_i tensor bad_o good_f at_output at_input)
qed

subsection \<open>Length of the input tensor index\<close>

lemma full_length_split:
  assumes "set inc = set p \<union> set f" and "set p \<inter> set f = {}"
  shows "length (build_idx_from_list d inc)
           = length (build_idx_from_list d p) + length (build_idx_from_list d f)"
proof -
  have "build_idx_from_list d inc = build_idx_from_list d (p @ f)"
    using assms(1) by (intro build_idx_cong_set) simp
  then show ?thesis
    by (simp add: build_idx_length_append [OF assms(2)])
qed

lemma input_len_padded:
  assumes built: "InputTensorIndex_init p d f t inc n2i kf add = Inr inp"
    and cover: "set inc = set p \<union> set f" and disjoint: "set p \<inter> set f = {}"
  shows "InputTensorIndex_len inp
           = length (full inp) + 2 * length (known_future_variables inp)
             + length (additional_model_variables inp)"
  unfolding InputTensorIndex_len_def InputTensorIndex_init_InrD(4,6,8) [OF built]
  by (simp add: full_length_split [OF cover disjoint])

lemma input_len_at_least:
  assumes built: "InputTensorIndex_init p d f t inc n2i kf add = Inr inp"
    and within: "set inc \<subseteq> set p \<union> set f"
  shows "length (full inp) + 2 * length (known_future_variables inp)
           + length (additional_model_variables inp) \<le> InputTensorIndex_len inp"
  unfolding InputTensorIndex_len_def InputTensorIndex_init_InrD(4,6,8) [OF built]
  using build_idx_length_subset [OF within, of n2i] by simp

lemma derived_prognostic_disjoint:
  "set [v \<leftarrow> dict_keys n2i. v \<notin> set (fc @ dg @ tg)] \<inter> set fc = {}"
  by auto

text \<open>
  C6 as stated does not hold for a tensor index built directly: nothing ties \<open>includes\<close>
  to the prognostic and forcing lists. With both role lists empty, two included names and
  one known-future variable, the length is \<open>2\<close>, and so is the length of \<open>full\<close>.
\<close>

theorem C6_length_equals_full_counterexample:
  "InputTensorIndex_init [] [] [] [] [''a'', ''b''] [(''a'', 0), (''b'', 1)]
       (Some [''a'']) None
     = Inr \<lparr> name_to_index = [(''a'', 0), (''b'', 1)], includes = [''a'', ''b''],
             prognostic = [], diagnostic = [], forcing = [], targets = [], full = [0, 1],
             known_future_variables = [''a''], additional_model_variables = [] \<rparr>
   \<and> InputTensorIndex_len
        \<lparr> name_to_index = [(''a'', 0), (''b'', 1)], includes = [''a'', ''b''],
          prognostic = [], diagnostic = [], forcing = [], targets = [], full = [0, 1],
          known_future_variables = [''a''], additional_model_variables = [] \<rparr> = 2
   \<and> length (full
        \<lparr> name_to_index = [(''a'', 0), (''b'', 1)], includes = [''a'', ''b''],
          prognostic = [], diagnostic = [], forcing = [], targets = [], full = [0, 1],
          known_future_variables = [''a''], additional_model_variables = [] \<rparr>) = 2"
  by (simp add: InputTensorIndex_init_def BaseTensorIndex_init_def build_idx_from_list_def
      to_int_tensor_def float32_def to_int32_def
      dict_keys_def BaseTensorIndex.extend_def InputTensorIndex.fields_def
      InputTensorIndex_len_def)

text \<open>
  C6 (amended). For every input tensor index whose \<open>includes\<close> names all occur in the
  prognostic or the forcing list, the length is at least the length of \<open>full\<close> plus
  twice the number of known-future variables plus the number of additional variables, and
  therefore differs from the length of \<open>full\<close> whenever known-future or additional is
  non-empty. When \<open>includes\<close> has exactly the names of the two lists and these share no
  name, as in every input index built by ModelIndex, the length equals that sum.
\<close>

theorem C6_length_exceeds_full:
  "(InputTensorIndex_init p d f t inc n2i kf add = Inr inp
      \<and> set inc \<subseteq> set p \<union> set f \<longrightarrow>
        length (full inp) + 2 * length (known_future_variables inp)
          + length (additional_model_variables inp) \<le> InputTensorIndex_len inp
        \<and> (known_future_variables inp \<noteq> [] \<or> additional_model_variables inp \<noteq> []
             \<longrightarrow> InputTensorIndex_len inp \<noteq> length (full inp)))
   \<and> (InputTensorIndex_init p d f t inc n2i kf add = Inr inp
      \<and> set inc = set p \<union> set f \<and> set p \<inter> set f = {} \<longrightarrow>
        InputTensorIndex_len inp
          = length (full inp) + 2 * length (known_future_variables inp)
            + length (additional_model_variables inp))
   \<and> (ModelIndex_init dg fc tg n2i_in n2i_out kfl addl = Inr mi \<longrightarrow>
        InputTensorIndex_len (input mi) = length (full (input mi)) + 2 * length kfl + length addl
        \<and> (kfl \<noteq> [] \<or> addl \<noteq> []
             \<longrightarrow> InputTensorIndex_len (input mi) \<noteq> length (full (input mi))))"
proof (intro conjI impI)
  assume h: "InputTensorIndex_init p d f t inc n2i kf add = Inr inp
      \<and> set inc \<subseteq> set p \<union> set f"
  have len: "length (full inp) + 2 * length (known_future_variables inp)
      + length (additional_model_variables inp) \<le> InputTensorIndex_len inp"
    by (rule input_len_at_least [OF h [THEN conjunct1] h [THEN conjunct2]])
  show "length (full inp) + 2 * length (known_future_variables inp)
      + length (additional_model_variables inp) \<le> InputTensorIndex_len inp"
    by (rule len)
  assume "known_future_variables inp \<noteq> [] \<or> additional_model_variables inp \<noteq> []"
  then have "0 < 2 * length (known_future_variables inp)
      + length (additional_model_variables inp)"
    by auto
  with len show "InputTensorIndex_len inp \<noteq> length (full inp)"
    by linarith
next
  assume h: "InputTensorIndex_init p d f t inc n2i kf add = Inr inp
      \<and> set inc = set p \<union> set f \<and> set p \<inter> set f = {}"
  show "InputTensorIndex_len inp
      = length (full inp) + 2 * length (known_future_variables inp)
        + length (additional_model_variables inp)"
    by (rule input_len_padded [OF h [THEN conjunct1] h [THEN conjunct2, THEN conjunct1]
          h [THEN conjunct2, THEN conjunct2]])
next
  assume built: "ModelIndex_init dg fc tg n2i_in n2i_out kfl addl = Inr mi"
  note parts = ModelIndex_init_InrD [OF built]
  have cover: "set (fc @ mi_prognostic mi) = set (mi_prognostic mi) \<union> set fc"
    by auto
  have disjoint: "set (mi_prognostic mi) \<inter> set fc = {}"
    unfolding parts(1) by (rule derived_prognostic_disjoint)
  have len: "InputTensorIndex_len (input mi)
      = length (full (input mi)) + 2 * length kfl + length addl"
    using input_len_padded [OF parts(2) cover disjoint]
    by (simp add: InputTensorIndex_init_InrD(9,10) [OF parts(2)])
  show "InputTensorIndex_len (input mi)
      = length (full (input mi)) + 2 * length kfl + length addl"
    by (rule len)
  assume "kfl \<noteq> [] \<or> addl \<noteq> []"
  then show "InputTensorIndex_len (input mi) \<noteq> length (full (input mi))"
    unfolding len by auto
qed

theorem C6_length_exceeds_full_witness:
  "InputTensorIndex_init [''t'', ''sp''] [] [''sp''] [] [''sp'', ''t'']
      [(''t'', 0), (''u'', 1), (''v'', 2), (''z'', 3), (''sp'', 4)] (Some [''sp'']) None
    = Inr \<lparr> name_to_index = [(''t'', 0), (''u'', 1), (''v'', 2), (''z'', 3), (''sp'', 4)],
        includes = [''sp'', ''t''], prognostic = [0, 4], diagnostic = [],
        forcing = [4], targets = [], full = [0, 4],
        known_future_variables = [''sp''], additional_model_variables = [] \<rparr>
   \<and> set [''sp'', ''t''] \<subseteq> set [''t'', ''sp''] \<union> set [''sp'']
   \<and> InputTensorIndex_len
      \<lparr> name_to_index = [(''t'', 0), (''u'', 1), (''v'', 2), (''z'', 3), (''sp'', 4)],
        includes = [''sp'', ''t''], prognostic = [0, 4], diagnostic = [],
        forcing = [4], targets = [], full = [0, 4],
        known_future_variables = [''sp''], additional_model_variables = [] \<rparr> \<noteq> 2
   \<and> InputTensorIndex_init [''t'', ''u'', ''v''] [''z''] [''sp''] [] [''sp'', ''t'', ''u'', ''v'']
      [(''t'', 0), (''u'', 1), (''v'', 2), (''z'', 3), (''sp'', 4)] (Some [''sp'']) None
    = Inr \<lparr> name_to_index = [(''t'', 0), (''u'', 1), (''v'', 2), (''z'', 3), (''sp'', 4)],
        includes = [''sp'', ''t'', ''u'', ''v''], prognostic = [0, 1, 2], diagnostic = [3],
        forcing = [4], targets = [], full = [0, 1, 2, 4],
        known_future_variables = [''sp''], additional_model_variables = [] \<rparr>
   \<and> set [''sp'', ''t'', ''u'', ''v''] = set [''t'', ''u'', ''v''] \<union> set [''sp'']
   \<and> set [''t'', ''u'', ''v''] \<inter> set [''sp''] = {}
   \<and> InputTensorIndex_len
      \<lparr> name_to_index = [(''t'', 0), (''u'', 1), (''v'', 2), (''z'', 3), (''sp'', 4)],
        includes = [''sp'', ''t'', ''u'', ''v''], prognostic = [0, 1, 2], diagnostic = [3],
        forcing = [4], targets = [], full = [0, 1, 2, 4],
        known_future_variables = [''sp''], additional_model_variables = [] \<rparr> = 6
   \<and> (\<exists>mi. ModelIndex_init [''z''] [''sp''] []
            [(''t'', 0), (''u'', 1), (''v'', 2), (''z'', 3), (''sp'', 4)]
            [(''z'', 0)] [''sp''] [''extra''] = Inr mi
        \<and> InputTensorIndex_len (input mi) = length (full (input mi)) + 3
        \<and> InputTensorIndex_len (input mi) \<noteq> length (full (input mi)))"
proof -
  let ?m = "[(''t'', 0), (''u'', 1), (''v'', 2), (''z'', 3), (''sp'', 4::int)]"
  let ?shared = "\<lparr> name_to_index = ?m,
        includes = [''sp'', ''t''], prognostic = [0, 4], diagnostic = [],
        forcing = [4], targets = [], full = [0, 4],
        known_future_variables = [''sp''], additional_model_variables = [] \<rparr>"
  let ?inp = "\<lparr> name_to_index = ?m,
        includes = [''sp'', ''t'', ''u'', ''v''], prognostic = [0, 1, 2], diagnostic = [3],
        forcing = [4], targets = [], full = [0, 1, 2, 4],
        known_future_variables = [''sp''], additional_model_variables = [] \<rparr>"
  have built_s: "InputTensorIndex_init [''t'', ''sp''] [] [''sp''] [] [''sp'', ''t''] ?m
      (Some [''sp'']) None = Inr ?shared"
    by (simp add: InputTensorIndex_init_def BaseTensorIndex_init_def build_idx_from_list_def
        to_int_tensor_def float32_def to_int32_def
        dict_keys_def BaseTensorIndex.extend_def InputTensorIndex.fields_def)
  have within: "set [''sp'', ''t''] \<subseteq> set [''t'', ''sp''] \<union> set [''sp'']"
    by simp
  have hyp_s: "InputTensorIndex_init [''t'', ''sp''] [] [''sp''] [] [''sp'', ''t''] ?m
      (Some [''sp'']) None = Inr ?shared
      \<and> set [''sp'', ''t''] \<subseteq> set [''t'', ''sp''] \<union> set [''sp'']"
    by (intro conjI built_s within)
  have nonempty_s: "known_future_variables ?shared \<noteq> []
      \<or> additional_model_variables ?shared \<noteq> []"
    by simp
  have differ: "InputTensorIndex_len ?shared \<noteq> 2"
    using C6_length_exceeds_full [THEN conjunct1, THEN mp, OF hyp_s, THEN conjunct2,
        THEN mp, OF nonempty_s]
    by simp
  have built: "InputTensorIndex_init [''t'', ''u'', ''v''] [''z''] [''sp''] []
      [''sp'', ''t'', ''u'', ''v''] ?m (Some [''sp'']) None = Inr ?inp"
    by (simp add: InputTensorIndex_init_def BaseTensorIndex_init_def build_idx_from_list_def
        to_int_tensor_def float32_def to_int32_def
        dict_keys_def BaseTensorIndex.extend_def InputTensorIndex.fields_def)
  have cover: "set [''sp'', ''t'', ''u'', ''v''] = set [''t'', ''u'', ''v''] \<union> set [''sp'']"
    by auto
  have disjoint: "set [''t'', ''u'', ''v''] \<inter> set [''sp''] = {}"
    by simp
  have hyp: "InputTensorIndex_init [''t'', ''u'', ''v''] [''z''] [''sp''] []
      [''sp'', ''t'', ''u'', ''v''] ?m (Some [''sp'']) None = Inr ?inp
      \<and> set [''sp'', ''t'', ''u'', ''v''] = set [''t'', ''u'', ''v''] \<union> set [''sp'']
      \<and> set [''t'', ''u'', ''v''] \<inter> set [''sp''] = {}"
    by (intro conjI built cover disjoint)
  have len: "InputTensorIndex_len ?inp = 6"
    using C6_length_exceeds_full [THEN conjunct2, THEN conjunct1, THEN mp, OF hyp]
    by simp
  obtain mi where mi: "ModelIndex_init [''z''] [''sp''] [] ?m [(''z'', 0)] [''sp'']
      [''extra''] = Inr mi"
    using ModelIndex_init_ok [of "[''sp'']" ?m "[''z'']" "[]" "[(''z'', 0)]" "[''sp'']"
        "[''extra'']"]
    by (auto simp: dict_keys_def)
  note model = C6_length_exceeds_full [THEN conjunct2, THEN conjunct2, THEN mp, OF mi]
  have m1: "InputTensorIndex_len (input mi) = length (full (input mi)) + 3"
    using model [THEN conjunct1] by simp
  have nonempty: "[''sp''] \<noteq> [] \<or> [''extra''] \<noteq> []" by simp
  have m2: "InputTensorIndex_len (input mi) \<noteq> length (full (input mi))"
    by (rule model [THEN conjunct2, THEN mp, OF nonempty])
  show ?thesis
    using mi m1 m2 by (intro conjI built_s within differ built cover disjoint len) blast
qed

subsection \<open>Comparison\<close>

lemma isclose_int:
  "isclose a b \<longleftrightarrow> 100000000 * \<bar>a - b\<bar> \<le> 1 + 1000 * \<bar>b\<bar>"
proof -
  have "isclose a b \<longleftrightarrow>
      (of_int (100000000 * \<bar>a - b\<bar>) :: rat) \<le> of_int (1 + 1000 * \<bar>b\<bar>)"
    by (simp add: isclose_def rtol_def atol_def field_simps)
  then show ?thesis
    by (simp only: of_int_le_iff)
qed

lemma isclose_refl: "isclose a a"
  by (simp add: isclose_int)

lemma tolerance_below_one:
  "100000000 * (x::int) \<le> 1 + 1000 * y \<Longrightarrow> y < 100000 \<Longrightarrow> x < 1"
  by linarith

lemma isclose_small:
  assumes "\<bar>b\<bar> < 100000"
  shows "isclose a b \<longleftrightarrow> a = b"
proof
  assume "isclose a b"
  then have "100000000 * \<bar>a - b\<bar> \<le> 1 + 1000 * \<bar>b\<bar>"
    by (simp only: isclose_int)
  then have "\<bar>a - b\<bar> < 1"
    using assms by (rule tolerance_below_one)
  then show "a = b"
    by simp
next
  assume "a = b"
  then show "isclose a b"
    by (simp add: isclose_refl)
qed

lemma list_all2_isclose_small:
  assumes "\<forall>b \<in> set ys. \<bar>b\<bar> < 100000"
  shows "list_all2 isclose xs ys \<longleftrightarrow> xs = ys"
  using assms
proof (induction xs arbitrary: ys)
  case Nil
  then show ?case by auto
next
  case (Cons x xs)
  then show ?case
    by (cases ys) (auto simp: isclose_small)
qed

lemma allclose_same_length:
  "length a = length b \<Longrightarrow> allclose a b = Inr (list_all2 isclose a b)"
  by (simp add: allclose_def)

lemma py_and_Inr: "py_and (Inr x) (Inr y) = Inr (x \<and> y)"
  by (simp add: py_and_def)

lemma BaseTensorIndex_eq_same_lengths:
  assumes "length (prognostic a) = length (prognostic b)"
    and "length (diagnostic a) = length (diagnostic b)"
    and "length (forcing a) = length (forcing b)"
    and "length (targets a) = length (targets b)"
    and "length (full a) = length (full b)"
  shows "BaseTensorIndex_eq a (Instance b)
    = Inr (Bool (list_all2 isclose (prognostic a) (prognostic b)
                 \<and> list_all2 isclose (diagnostic a) (diagnostic b)
                 \<and> list_all2 isclose (forcing a) (forcing b)
                 \<and> list_all2 isclose (targets a) (targets b)
                 \<and> list_all2 isclose (full a) (full b)))"
  by (simp add: BaseTensorIndex_eq_def allclose_same_length assms py_and_Inr)

text \<open>
  C7 as stated does not hold: the comparison is \<^verbatim>\<open>torch.allclose\<close>, which accepts a
  relative error of \<open>10\<^sup>-\<^sup>5\<close>. Two tensor indices built from mappings that place the same
  variable at positions \<open>1000000\<close> and \<open>1000001\<close> compare equal although their arrays
  differ.
\<close>

theorem C7_tolerant_equality_counterexample:
  "BaseTensorIndex_init [''x''] [] [] [] [''x''] [(''x'', 1000000)]
     = Inr \<lparr> name_to_index = [(''x'', 1000000)], includes = [''x''],
             prognostic = [1000000], diagnostic = [], forcing = [], targets = [],
             full = [1000000] \<rparr>
   \<and> BaseTensorIndex_init [''x''] [] [] [] [''x''] [(''x'', 1000001)]
     = Inr \<lparr> name_to_index = [(''x'', 1000001)], includes = [''x''],
             prognostic = [1000001], diagnostic = [], forcing = [], targets = [],
             full = [1000001] \<rparr>
   \<and> BaseTensorIndex_eq
        \<lparr> name_to_index = [(''x'', 1000000)], includes = [''x''],
          prognostic = [1000000], diagnostic = [], forcing = [], targets = [],
          full = [1000000] \<rparr>
        (Instance \<lparr> name_to_index = [(''x'', 1000001)], includes = [''x''],
          prognostic = [1000001], diagnostic = [], forcing = [], targets = [],
          full = [1000001] \<rparr>)
     = Inr (Bool True)
   \<and> full \<lparr> name_to_index = [(''x'', 1000000)], includes = [''x''],
          prognostic = [1000000], diagnostic = [], forcing = [], targets = [],
          full = [1000000] \<rparr>
     \<noteq> full \<lparr> name_to_index = [(''x'', 1000001)], includes = [''x''],
          prognostic = [1000001], diagnostic = [], forcing = [], targets = [],
          full = [1000001] \<rparr>"
  by (simp add: BaseTensorIndex_init_def build_idx_from_list_def to_int_tensor_def float32_def to_int32_def dict_keys_def
      BaseTensorIndex_eq_def allclose_def py_and_def isclose_int)

text \<open>
  C7 (amended). For two tensor indices whose corresponding arrays have the same lengths,
  equality returns true exactly when every pair of corresponding elements \<open>x\<close>, \<open>y\<close>
  satisfies \<open>\<bar>x - y\<bar> \<le> 10\<^sup>-\<^sup>8 + 10\<^sup>-\<^sup>5 * \<bar>y\<bar>\<close>; when moreover every position of the
  right operand is below \<open>100000\<close> in magnitude, exactly when the five sequences are
  equal. Comparing a tensor index or a variable index with an object of an unrelated type
  returns \<open>NotImplemented\<close> and does not raise.
\<close>

theorem C7_equality:
  "(length (prognostic a) = length (prognostic b)
      \<and> length (diagnostic a) = length (diagnostic b)
      \<and> length (forcing a) = length (forcing b)
      \<and> length (targets a) = length (targets b)
      \<and> length (full a) = length (full b) \<longrightarrow>
        BaseTensorIndex_eq a (Instance b)
          = Inr (Bool (list_all2 isclose (prognostic a) (prognostic b)
                       \<and> list_all2 isclose (diagnostic a) (diagnostic b)
                       \<and> list_all2 isclose (forcing a) (forcing b)
                       \<and> list_all2 isclose (targets a) (targets b)
                       \<and> list_all2 isclose (full a) (full b)))
        \<and> ((\<forall>y \<in> set (prognostic b @ diagnostic b @ forcing b @ targets b @ full b).
               \<bar>y\<bar> < 100000) \<longrightarrow>
            BaseTensorIndex_eq a (Instance b)
              = Inr (Bool (prognostic a = prognostic b \<and> diagnostic a = diagnostic b
                           \<and> forcing a = forcing b \<and> targets a = targets b
                           \<and> full a = full b))))
   \<and> BaseTensorIndex_eq a Unrelated = Inr NotImplemented
   \<and> BaseIndex_eq v Unrelated = Inr NotImplemented"
proof (intro conjI impI)
  assume lens: "length (prognostic a) = length (prognostic b)
      \<and> length (diagnostic a) = length (diagnostic b)
      \<and> length (forcing a) = length (forcing b)
      \<and> length (targets a) = length (targets b)
      \<and> length (full a) = length (full b)"
  then have tolerant: "BaseTensorIndex_eq a (Instance b)
      = Inr (Bool (list_all2 isclose (prognostic a) (prognostic b)
                   \<and> list_all2 isclose (diagnostic a) (diagnostic b)
                   \<and> list_all2 isclose (forcing a) (forcing b)
                   \<and> list_all2 isclose (targets a) (targets b)
                   \<and> list_all2 isclose (full a) (full b)))"
    by (intro BaseTensorIndex_eq_same_lengths) simp_all
  show "BaseTensorIndex_eq a (Instance b)
      = Inr (Bool (list_all2 isclose (prognostic a) (prognostic b)
                   \<and> list_all2 isclose (diagnostic a) (diagnostic b)
                   \<and> list_all2 isclose (forcing a) (forcing b)
                   \<and> list_all2 isclose (targets a) (targets b)
                   \<and> list_all2 isclose (full a) (full b)))"
    by (rule tolerant)
  assume small: "\<forall>y \<in> set (prognostic b @ diagnostic b @ forcing b @ targets b @ full b).
      \<bar>y\<bar> < 100000"
  have "list_all2 isclose (prognostic a) (prognostic b) \<longleftrightarrow> prognostic a = prognostic b"
    and "list_all2 isclose (diagnostic a) (diagnostic b) \<longleftrightarrow> diagnostic a = diagnostic b"
    and "list_all2 isclose (forcing a) (forcing b) \<longleftrightarrow> forcing a = forcing b"
    and "list_all2 isclose (targets a) (targets b) \<longleftrightarrow> targets a = targets b"
    and "list_all2 isclose (full a) (full b) \<longleftrightarrow> full a = full b"
    using small by (simp_all add: list_all2_isclose_small)
  then show "BaseTensorIndex_eq a (Instance b)
      = Inr (Bool (prognostic a = prognostic b \<and> diagnostic a = diagnostic b
                   \<and> forcing a = forcing b \<and> targets a = targets b \<and> full a = full b))"
    unfolding tolerant by simp
next
  show "BaseTensorIndex_eq a Unrelated = Inr NotImplemented"
    by (simp add: BaseTensorIndex_eq_def)
  show "BaseIndex_eq v Unrelated = Inr NotImplemented"
    by (simp add: BaseIndex_eq_def)
qed

theorem C7_equality_witness:
  "BaseTensorIndex_init [''t'', ''u'', ''v''] [''z''] [''sp''] [] [''z'']
      [(''t'', 0), (''u'', 1), (''v'', 2), (''z'', 3), (''sp'', 4)]
    = Inr \<lparr> name_to_index = [(''t'', 0), (''u'', 1), (''v'', 2), (''z'', 3), (''sp'', 4)],
        includes = [''z''], prognostic = [0, 1, 2], diagnostic = [3], forcing = [4],
        targets = [], full = [3] \<rparr>
   \<and> BaseTensorIndex_init [''t'', ''u'', ''v''] [''z''] [''sp''] [] [''z'']
      [(''t'', 0), (''u'', 1), (''v'', 2), (''sp'', 3), (''z'', 4)]
    = Inr \<lparr> name_to_index = [(''t'', 0), (''u'', 1), (''v'', 2), (''sp'', 3), (''z'', 4)],
        includes = [''z''], prognostic = [0, 1, 2], diagnostic = [4], forcing = [3],
        targets = [], full = [4] \<rparr>
   \<and> BaseTensorIndex_eq
        \<lparr> name_to_index = [(''t'', 0), (''u'', 1), (''v'', 2), (''z'', 3), (''sp'', 4)],
          includes = [''z''], prognostic = [0, 1, 2], diagnostic = [3], forcing = [4],
          targets = [], full = [3] \<rparr>
        (Instance
          \<lparr> name_to_index = [(''t'', 0), (''u'', 1), (''v'', 2), (''z'', 3), (''sp'', 4)],
            includes = [''z''], prognostic = [0, 1, 2], diagnostic = [3], forcing = [4],
            targets = [], full = [3] \<rparr>)
      = Inr (Bool True)
   \<and> BaseTensorIndex_eq
        \<lparr> name_to_index = [(''t'', 0), (''u'', 1), (''v'', 2), (''z'', 3), (''sp'', 4)],
          includes = [''z''], prognostic = [0, 1, 2], diagnostic = [3], forcing = [4],
          targets = [], full = [3] \<rparr>
        (Instance
          \<lparr> name_to_index = [(''t'', 0), (''u'', 1), (''v'', 2), (''sp'', 3), (''z'', 4)],
            includes = [''z''], prognostic = [0, 1, 2], diagnostic = [4], forcing = [3],
            targets = [], full = [4] \<rparr>)
      = Inr (Bool False)"
proof -
  let ?m = "[(''t'', 0), (''u'', 1), (''v'', 2), (''z'', 3), (''sp'', 4::int)]"
  let ?m' = "[(''t'', 0), (''u'', 1), (''v'', 2), (''sp'', 3), (''z'', 4::int)]"
  let ?a = "\<lparr> name_to_index = ?m,
        includes = [''z''], prognostic = [0, 1, 2], diagnostic = [3], forcing = [4],
        targets = [], full = [3] \<rparr>"
  let ?b = "\<lparr> name_to_index = ?m',
        includes = [''z''], prognostic = [0, 1, 2], diagnostic = [4], forcing = [3],
        targets = [], full = [4] \<rparr>"
  have built_a: "BaseTensorIndex_init [''t'', ''u'', ''v''] [''z''] [''sp''] [] [''z''] ?m
      = Inr ?a"
    by (simp add: BaseTensorIndex_init_def build_idx_from_list_def to_int_tensor_def float32_def to_int32_def dict_keys_def)
  have built_b: "BaseTensorIndex_init [''t'', ''u'', ''v''] [''z''] [''sp''] [] [''z''] ?m'
      = Inr ?b"
    by (simp add: BaseTensorIndex_init_def build_idx_from_list_def to_int_tensor_def float32_def to_int32_def dict_keys_def)
  have lens_aa: "length (prognostic ?a) = length (prognostic ?a)
      \<and> length (diagnostic ?a) = length (diagnostic ?a)
      \<and> length (forcing ?a) = length (forcing ?a)
      \<and> length (targets ?a) = length (targets ?a)
      \<and> length (full ?a) = length (full ?a)"
    by simp
  have lens_ab: "length (prognostic ?a) = length (prognostic ?b)
      \<and> length (diagnostic ?a) = length (diagnostic ?b)
      \<and> length (forcing ?a) = length (forcing ?b)
      \<and> length (targets ?a) = length (targets ?b)
      \<and> length (full ?a) = length (full ?b)"
    by simp
  have small_a: "\<forall>y \<in> set (prognostic ?a @ diagnostic ?a @ forcing ?a @ targets ?a @ full ?a).
      \<bar>y\<bar> < 100000"
    by simp
  have small_b: "\<forall>y \<in> set (prognostic ?b @ diagnostic ?b @ forcing ?b @ targets ?b @ full ?b).
      \<bar>y\<bar> < 100000"
    by simp
  have same: "BaseTensorIndex_eq ?a (Instance ?a) = Inr (Bool True)"
    using C7_equality [where a = ?a and b = ?a, THEN conjunct1, THEN mp, OF lens_aa,
        THEN conjunct2, THEN mp, OF small_a]
    by simp
  have differ: "BaseTensorIndex_eq ?a (Instance ?b) = Inr (Bool False)"
    using C7_equality [where a = ?a and b = ?b, THEN conjunct1, THEN mp, OF lens_ab,
        THEN conjunct2, THEN mp, OF small_b]
    by simp
  show ?thesis
    by (intro conjI built_a built_b same differ)
qed

subsection \<open>Dictionary export\<close>

text \<open>
  C8. The dictionary exported by a variable index has the two keys \<open>input\<close> and
  \<open>output\<close>; each inner dictionary has exactly the five keys \<open>prognostic\<close>,
  \<open>diagnostic\<close>, \<open>forcing\<close>, \<open>targets\<close> and \<open>full\<close>, and each exported sequence is
  the corresponding field of the respective tensor index.
\<close>

theorem C8_todict_roundtrip:
  "map fst (BaseIndex_todict v) = [''input'', ''output'']
   \<and> (\<exists>i. map_of (BaseIndex_todict v) ''input'' = Some i
        \<and> map fst i = [''prognostic'', ''diagnostic'', ''forcing'', ''targets'', ''full'']
        \<and> map_of i ''prognostic'' = Some (prognostic (input v))
        \<and> map_of i ''diagnostic'' = Some (diagnostic (input v))
        \<and> map_of i ''forcing'' = Some (forcing (input v))
        \<and> map_of i ''targets'' = Some (targets (input v))
        \<and> map_of i ''full'' = Some (full (input v)))
   \<and> (\<exists>out. map_of (BaseIndex_todict v) ''output'' = Some out
        \<and> map fst out = [''prognostic'', ''diagnostic'', ''forcing'', ''targets'', ''full'']
        \<and> map_of out ''prognostic'' = Some (prognostic (output v))
        \<and> map_of out ''diagnostic'' = Some (diagnostic (output v))
        \<and> map_of out ''forcing'' = Some (forcing (output v))
        \<and> map_of out ''targets'' = Some (targets (output v))
        \<and> map_of out ''full'' = Some (full (output v)))"
  by (simp add: BaseIndex_todict_def BaseTensorIndex_todict_def)

end
